theory Spec2Isabelle
  imports Main "HOL-Library.Word"
begin

unbundle bit_operations_syntax

section \<open>USB Audio Class 2.0 gadget function (f\_uac2.c)\<close>

text \<open>
  A shallow embedding of the streaming core of
  \<^verbatim>\<open>drivers/usb/gadget/function/f_uac2.c\<close>: the isochronous completion
  handler with its playback pacing arithmetic, the alt-setting handler, and the
  class-specific control requests on the two clock sources.

  Machine integers are words of the width the driver is built with on its 64-bit
  little-endian target: \<^verbatim>\<open>unsigned int\<close> and \<^verbatim>\<open>int\<close> are 32 bits,
  \<^verbatim>\<open>size_t\<close> and \<^verbatim>\<open>ssize_t\<close> are 64 bits. Word arithmetic wraps as
  the C arithmetic does; \<open>div\<close>, \<open>mod\<close> and \<open>\<le>\<close> on words are the unsigned
  operations. Return codes of type \<^verbatim>\<open>int\<close> are mathematical integers, a
  failure being the negated errno value as in the source.
\<close>

type_synonym u8 = "8 word"
type_synonym u16 = "16 word"
type_synonym u32 = "32 word"
type_synonym size_t = "64 word"
type_synonym ssize_t = "64 word"

subsection \<open>Constants\<close>

text \<open>Line 43: the number of transfers kept in flight per direction.\<close>

definition USB_XFERS :: nat where
  "USB_XFERS = 8"

text \<open>Lines 61-62: the two clock source entities.\<close>

definition USB_OUT_CLK_ID :: u8 where
  "USB_OUT_CLK_ID = 9"

definition USB_IN_CLK_ID :: u8 where
  "USB_IN_CLK_ID = 10"

text \<open>Lines 65-66: the sampling rates a host may select.\<close>

definition clk_frequencies :: "u32 list" where
  "clk_frequencies = [44100, 48000]"

definition CLK_FREQ_ARR_SIZE :: nat where
  "CLK_FREQ_ARR_SIZE = 2"

text \<open>Lines 947 and 1082: the number of non-zero alternate settings.\<close>

definition MAX_AS_OUT_ALT :: u32 where
  "MAX_AS_OUT_ALT = 6"

definition MAX_AS_IN_ALT :: u32 where
  "MAX_AS_IN_ALT = 6"

text \<open>
  Modelled from the spec: the errno values of \<^verbatim>\<open>errno.h\<close>, the request codes
  and control selectors of \<^verbatim>\<open>linux/usb/audio-v2.h\<close> and the request-type bits
  of \<^verbatim>\<open>linux/usb/ch9.h\<close> are kernel headers outside this source file. The
  design names them (invalid-argument, out-of-memory, not-supported, shutting down;
  GET/SET CUR, GET RANGE; the sample-frequency and clock-valid selectors); the numbers
  are the ones of those headers.
\<close>

definition ENOMEM :: int where
  "ENOMEM = 12"

definition EINVAL :: int where
  "EINVAL = 22"

definition EOPNOTSUPP :: int where
  "EOPNOTSUPP = 95"

definition ESHUTDOWN :: int where
  "ESHUTDOWN = 108"

definition UAC2_CS_CUR :: u8 where
  "UAC2_CS_CUR = 1"

definition UAC2_CS_RANGE :: u8 where
  "UAC2_CS_RANGE = 2"

definition UAC2_CS_CONTROL_SAM_FREQ :: u8 where
  "UAC2_CS_CONTROL_SAM_FREQ = 1"

definition UAC2_CS_CONTROL_CLOCK_VALID :: u8 where
  "UAC2_CS_CONTROL_CLOCK_VALID = 2"

definition USB_DIR_IN :: u8 where
  "USB_DIR_IN = 0x80"

definition USB_TYPE_MASK :: u8 where
  "USB_TYPE_MASK = 0x60"

definition USB_TYPE_CLASS :: u8 where
  "USB_TYPE_CLASS = 0x20"

definition USB_RECIP_MASK :: u8 where
  "USB_RECIP_MASK = 0x1f"

definition USB_RECIP_INTERFACE :: u8 where
  "USB_RECIP_INTERFACE = 0x01"

subsection \<open>Data model\<close>

text \<open>The direction of an ALSA substream (\<^verbatim>\<open>substream->stream\<close>).\<close>

datatype pcm_stream = SNDRV_PCM_STREAM_PLAYBACK | SNDRV_PCM_STREAM_CAPTURE

text \<open>
  The fields of \<^verbatim>\<open>struct usb_request\<close> that the streaming path reads and
  writes. \<open>length_req\<close> is the field \<^verbatim>\<open>length\<close>.
\<close>

record usb_request =
  status :: int
  actual :: u32
  length_req :: u32

text \<open>
  Lines 90-111, \<^verbatim>\<open>struct uac2_rtd_params\<close>. The bound substream \<open>ss\<close> is
  \<open>None\<close> for a null pointer and otherwise carries the substream's direction. A slot
  of \<open>ureq\<close> is \<open>None\<close> while its request pointer is null. The contents of the ring
  buffer and of the staging buffers are not represented; the copies between them appear
  as events of the completion handler.
\<close>

record uac2_rtd_params =
  ep_enabled :: bool
  dma_bytes :: size_t
  ss :: "pcm_stream option"
  is_pcm_open :: bool
  hw_ptr :: ssize_t
  period_size :: size_t
  max_psize :: u32
  ureq :: "usb_request option list"

text \<open>Lines 113-131, \<^verbatim>\<open>struct snd_uac2_chip\<close>: both directions and the playback pacing state.\<close>

record snd_uac2_chip =
  p_prm :: uac2_rtd_params
  c_prm :: uac2_rtd_params
  p_interval :: u32
  p_residue :: u32
  p_pktsize :: u32
  p_pktsize_residue :: u32
  p_framesize :: u32

text \<open>Lines 148-167, \<^verbatim>\<open>struct audio_dev\<close>.\<close>

record audio_dev =
  ac_intf :: u8
  ac_alt :: u8
  as_out_intf :: u8
  as_out_alt :: u8
  as_in_intf :: u8
  as_in_alt :: u8
  uac2 :: snd_uac2_chip

text \<open>
  The configuration \<^verbatim>\<open>struct f_uac2_opts\<close> as this file uses it: eight
  \<^verbatim>\<open>int\<close> fields (its declaration is in \<^verbatim>\<open>u_uac2.h\<close>).
\<close>

record f_uac2_opts =
  p_chmask :: u32
  p_srate :: u32
  p_ssize :: u32
  p_sres :: u32
  c_chmask :: u32
  c_srate :: u32
  c_ssize :: u32
  c_sres :: u32

text \<open>
  What a handler does besides changing the state, in program order. The two store events
  mark the assignments to the ring position and to a configured rate, so that their place
  relative to the lock operations can be read off a trace.
\<close>

datatype region = ReqBuf nat | DmaArea nat

datatype event =
    SpinLockIrqsave pcm_stream
  | SpinUnlockIrqrestore pcm_stream
  | StoreHwPtr pcm_stream ssize_t
  | Memcpy region region nat
  | UsbEpQueue
  | SndPcmPeriodElapsed
  | PrDebug
  | PrErr
  | MutexLock
  | MutexUnlock
  | StoreSrate pcm_stream u32

text \<open>An integer division by zero does not return.\<close>

datatype fault = DivideByZero

subsection \<open>Channel count\<close>

text \<open>Lines 193-204: the number of set bits of a channel mask.\<close>

function num_channels :: "u32 \<Rightarrow> u32" where
  "num_channels chanmask =
     (if chanmask = 0 then 0
      else (chanmask AND 1) + num_channels (drop_bit 1 chanmask))"
  by pat_completeness auto
termination
proof (relation "measure unat")
  show "wf (measure unat)" by simp
next
  fix chanmask :: u32
  assume nz: "chanmask \<noteq> 0"
  have "unat chanmask \<noteq> 0" using nz by (simp add: unat_eq_0)
  moreover have "unat (drop_bit 1 chanmask) = unat chanmask div 2"
    by (simp add: drop_bit_eq_div unat_div)
  ultimately show "(drop_bit 1 chanmask, chanmask) \<in> measure unat"
    by simp
qed

declare num_channels.simps [simp del]

subsection \<open>The completion handler\<close>

text \<open>
  Lines 246-260, the playback branch of \<open>agdev_iso_complete\<close>: one pacing tick. The
  packet starts at the base size, the per-tick residue is added to the accumulator, and
  when the accumulator divided by the interval reaches the frame size the packet grows
  by one frame and the accumulator is reduced. The division by \<open>p_interval\<close> faults
  when the interval is zero.
\<close>

definition iso_complete_pacing ::
  "snd_uac2_chip \<Rightarrow> usb_request \<Rightarrow> fault + (snd_uac2_chip \<times> usb_request)" where
  "iso_complete_pacing u req =
     (let req1 = req\<lparr>length_req := p_pktsize u\<rparr>;
          u1 = u\<lparr>p_residue := p_residue u + p_pktsize_residue u\<rparr>
      in if p_interval u1 = 0 then Inl DivideByZero
         else
           let (u2, req2) =
                 (if p_framesize u1 \<le> p_residue u1 div p_interval u1
                  then (u1\<lparr>p_residue := p_residue u1 - p_framesize u1 * p_interval u1\<rparr>,
                        req1\<lparr>length_req := length_req req1 + p_framesize u1\<rparr>)
                  else (u1, req1))
           in Inr (u2, req2\<lparr>actual := length_req req2\<rparr>))"

text \<open>The runtime parameters of a direction, \<^verbatim>\<open>ur->pp\<close> of the completed request.\<close>

fun get_prm :: "pcm_stream \<Rightarrow> snd_uac2_chip \<Rightarrow> uac2_rtd_params" where
  "get_prm SNDRV_PCM_STREAM_PLAYBACK u = p_prm u"
| "get_prm SNDRV_PCM_STREAM_CAPTURE u = c_prm u"

fun set_prm :: "pcm_stream \<Rightarrow> uac2_rtd_params \<Rightarrow> snd_uac2_chip \<Rightarrow> snd_uac2_chip" where
  "set_prm SNDRV_PCM_STREAM_PLAYBACK p u = u\<lparr>p_prm := p\<rparr>"
| "set_prm SNDRV_PCM_STREAM_CAPTURE p u = u\<lparr>c_prm := p\<rparr>"

text \<open>
  Lines 273-292: the copy between the request buffer and the ring, in one piece or
  split at the end of the ring. \<open>hw_ptr32\<close> and \<open>pending\<close> are the handler's
  \<^verbatim>\<open>unsigned\<close> locals.
\<close>

definition iso_complete_copy :: "pcm_stream \<Rightarrow> u32 \<Rightarrow> u32 \<Rightarrow> u32 \<Rightarrow> event list" where
  "iso_complete_copy stream hw_ptr32 pending act =
     (if stream = SNDRV_PCM_STREAM_PLAYBACK then
        (if pending < act
         then [Memcpy (ReqBuf 0) (DmaArea (unat hw_ptr32)) (unat pending),
               Memcpy (ReqBuf (unat pending)) (DmaArea 0) (unat (act - pending))]
         else [Memcpy (ReqBuf 0) (DmaArea (unat hw_ptr32)) (unat act)])
      else
        (if pending < act
         then [Memcpy (DmaArea (unat hw_ptr32)) (ReqBuf 0) (unat pending),
               Memcpy (DmaArea 0) (ReqBuf (unat pending)) (unat (act - pending))]
         else [Memcpy (DmaArea (unat hw_ptr32)) (ReqBuf 0) (unat act)]))"

text \<open>
  The request that slot \<open>i\<close> of a direction points to, if the slot exists and is not
  null.
\<close>

definition ureq_at :: "uac2_rtd_params \<Rightarrow> nat \<Rightarrow> usb_request option" where
  "ureq_at prm i = (if i < length (ureq prm) then ureq prm ! i else None)"

text \<open>
  What precedes a call of the handler: the controller driver, which is outside this
  file, has written the outcome of the transfer, its status and the number of bytes
  moved, into the request and hands the request back. A slot without a request has
  nothing to hand back.
\<close>

definition giveback_request ::
  "pcm_stream \<Rightarrow> nat \<Rightarrow> int \<Rightarrow> u32 \<Rightarrow> snd_uac2_chip \<Rightarrow> snd_uac2_chip" where
  "giveback_request d i st act u =
     (let prm = get_prm d u in
      case ureq_at prm i of
        None \<Rightarrow> u
      | Some r \<Rightarrow>
          set_prm d (prm\<lparr>ureq := (ureq prm)[i := Some (r\<lparr>status := st, actual := act\<rparr>)]\<rparr>) u)"

text \<open>
  Lines 206-302, \<open>agdev_iso_complete\<close>, called for the request of slot \<open>i\<close> of
  direction \<open>d\<close>: \<^verbatim>\<open>req->context\<close> is that slot and the slot's \<^verbatim>\<open>pp\<close> the
  direction. The handler is not called for a slot without a request. A request that
  completes on a disabled endpoint or with \<open>-ESHUTDOWN\<close> is dropped: nothing changes
  and it is not queued again. Without a bound substream the request is only queued
  again. Otherwise, between taking and releasing the lock of the direction, a playback
  substream runs the pacing tick, which overwrites \<open>length\<close> and \<open>actual\<close> of the
  request, the period boundary is tested, and the ring position advances by the
  request's \<open>actual\<close>, as it is then, modulo \<open>dma_bytes\<close>; then the data is copied,
  the request is queued again, and a crossed period boundary is reported. The request
  is the one the slot points to, so what the handler writes into it is in the slot
  afterwards.
\<close>

definition agdev_iso_complete ::
  "pcm_stream \<Rightarrow> nat \<Rightarrow> snd_uac2_chip \<Rightarrow> fault + (snd_uac2_chip \<times> event list)" where
  "agdev_iso_complete d i u =
     (let prm = get_prm d u in
      case ureq_at prm i of
        None \<Rightarrow> Inr (u, [])
      | Some req \<Rightarrow>
          if \<not> ep_enabled prm \<or> status req = - ESHUTDOWN then Inr (u, [])
          else
            let ev0 = (if status req \<noteq> 0 then [PrDebug] else []) in
            case ss prm of
              None \<Rightarrow> Inr (u, ev0 @ [UsbEpQueue])
            | Some stream \<Rightarrow>
                (case (if stream = SNDRV_PCM_STREAM_PLAYBACK
                       then iso_complete_pacing u req else Inr (u, req)) of
                   Inl f \<Rightarrow> Inl f
                 | Inr (u1, req1) \<Rightarrow>
                     if period_size prm = 0 then Inl DivideByZero
                     else
                       let pending0 = (ucast (hw_ptr prm mod period_size prm) :: u32)
                                        + actual req1;
                           update_alsa = (period_size prm \<le> ucast pending0);
                           hw_ptr32 = (ucast (hw_ptr prm) :: u32)
                       in if dma_bytes prm = 0 then Inl DivideByZero
                          else
                            let new_ptr = (hw_ptr prm + ucast (actual req1)) mod dma_bytes prm;
                                u2 = set_prm d (prm\<lparr>hw_ptr := new_ptr,
                                                    ureq := (ureq prm)[i := Some req1]\<rparr>) u1;
                                pending = (ucast (dma_bytes prm - ucast hw_ptr32) :: u32)
                            in Inr (u2,
                                    ev0 @ [SpinLockIrqsave d, StoreHwPtr d new_ptr,
                                           SpinUnlockIrqrestore d]
                                     @ iso_complete_copy stream hw_ptr32 pending (actual req1)
                                     @ [UsbEpQueue]
                                     @ (if update_alsa then [SndPcmPeriodElapsed] else []))))"

subsection \<open>ALSA stream operations\<close>

text \<open>
  Lines 357-378, \<open>uac2_pcm_hw_params\<close>. The page allocation belongs to ALSA: its
  result \<open>err\<close> and the geometry it leaves in the runtime (\<open>rt_dma_bytes\<close>) and in
  the parameters (\<open>period_bytes\<close>) are arguments.
\<close>

definition uac2_pcm_hw_params ::
  "pcm_stream \<Rightarrow> int \<Rightarrow> size_t \<Rightarrow> size_t \<Rightarrow> snd_uac2_chip \<Rightarrow> int \<times> snd_uac2_chip" where
  "uac2_pcm_hw_params stream err rt_dma_bytes period_bytes u =
     (let prm = get_prm stream u in
      if 0 \<le> err
      then (err, set_prm stream (prm\<lparr>dma_bytes := rt_dma_bytes,
                                      period_size := period_bytes\<rparr>) u)
      else (err, u))"

text \<open>The commands of \<^verbatim>\<open>sound/pcm.h\<close> that a trigger callback can receive.\<close>

datatype pcm_trigger =
    SNDRV_PCM_TRIGGER_STOP
  | SNDRV_PCM_TRIGGER_START
  | SNDRV_PCM_TRIGGER_PAUSE_PUSH
  | SNDRV_PCM_TRIGGER_PAUSE_RELEASE
  | SNDRV_PCM_TRIGGER_SUSPEND
  | SNDRV_PCM_TRIGGER_RESUME
  | SNDRV_PCM_TRIGGER_DRAIN

text \<open>
  Lines 304-342, \<open>uac2_pcm_trigger\<close>: the ring position is reset on every call; start
  and resume bind the substream, stop and suspend unbind it, any other command is an
  invalid argument.
\<close>

definition uac2_pcm_trigger ::
  "pcm_stream \<Rightarrow> pcm_trigger \<Rightarrow> snd_uac2_chip \<Rightarrow> int \<times> snd_uac2_chip" where
  "uac2_pcm_trigger stream cmd u =
     (let prm = (get_prm stream u)\<lparr>hw_ptr := 0\<rparr> in
      if cmd = SNDRV_PCM_TRIGGER_START \<or> cmd = SNDRV_PCM_TRIGGER_RESUME
      then (0, set_prm stream (prm\<lparr>ss := Some stream\<rparr>) u)
      else if cmd = SNDRV_PCM_TRIGGER_STOP \<or> cmd = SNDRV_PCM_TRIGGER_SUSPEND
      then (0, set_prm stream (prm\<lparr>ss := None\<rparr>) u)
      else (- EINVAL, set_prm stream prm u))"

subsection \<open>Descriptors\<close>

text \<open>
  Lines 1031-1104: what \<open>afunc_set_alt\<close> reads from the descriptors of a non-zero
  alternate setting, as \<^verbatim>\<open>INIT_USB_IN_ALT_SETTING(id, channels, slotsize, bitdepth)\<close>
  fills them in. The table for the OUT interface (lines 896-969) has the same entries.
\<close>

record alt_setting =
  bSubslotSize :: u8
  bBitResolution :: u8
  bmChannelConfig :: u32

definition UAC2_MONO :: nat where
  "UAC2_MONO = 1"

definition UAC2_STEREO :: nat where
  "UAC2_STEREO = 2"

definition UAC2_MONO_CH_CONFIG :: u32 where
  "UAC2_MONO_CH_CONFIG = 0x01"

definition UAC2_STEREO_CH_CONFIG :: u32 where
  "UAC2_STEREO_CH_CONFIG = 0x03"

definition INIT_USB_ALT_SETTING :: "nat \<Rightarrow> u8 \<Rightarrow> u8 \<Rightarrow> alt_setting" where
  "INIT_USB_ALT_SETTING channels slotsize bitdepth =
     \<lparr>bSubslotSize = slotsize, bBitResolution = bitdepth,
      bmChannelConfig = (if channels = UAC2_MONO then UAC2_MONO_CH_CONFIG
                         else UAC2_STEREO_CH_CONFIG)\<rparr>"

definition as_in_alt_setting :: "alt_setting list" where
  "as_in_alt_setting =
     [INIT_USB_ALT_SETTING UAC2_MONO 2 16,
      INIT_USB_ALT_SETTING UAC2_STEREO 2 16,
      INIT_USB_ALT_SETTING UAC2_MONO 3 24,
      INIT_USB_ALT_SETTING UAC2_STEREO 3 24,
      INIT_USB_ALT_SETTING UAC2_MONO 4 24,
      INIT_USB_ALT_SETTING UAC2_STEREO 4 24]"

definition as_out_alt_setting :: "alt_setting list" where
  "as_out_alt_setting =
     [INIT_USB_ALT_SETTING UAC2_MONO 2 16,
      INIT_USB_ALT_SETTING UAC2_STEREO 2 16,
      INIT_USB_ALT_SETTING UAC2_MONO 3 24,
      INIT_USB_ALT_SETTING UAC2_STEREO 3 24,
      INIT_USB_ALT_SETTING UAC2_MONO 4 24,
      INIT_USB_ALT_SETTING UAC2_STEREO 4 24]"

text \<open>Lines 1106-1124: the service interval exponents of the two IN endpoint descriptors.\<close>

record usb_endpoint_descriptor =
  wMaxPacketSize :: u16
  bInterval :: u8

definition fs_epin_desc :: usb_endpoint_descriptor where
  "fs_epin_desc = \<lparr>wMaxPacketSize = 1023, bInterval = 1\<rparr>"

definition hs_epin_desc :: usb_endpoint_descriptor where
  "hs_epin_desc = \<lparr>wMaxPacketSize = 1024, bInterval = 4\<rparr>"

text \<open>The bus speeds of \<^verbatim>\<open>enum usb_device_speed\<close>.\<close>

datatype usb_device_speed =
    USB_SPEED_UNKNOWN
  | USB_SPEED_LOW
  | USB_SPEED_FULL
  | USB_SPEED_HIGH
  | USB_SPEED_WIRELESS
  | USB_SPEED_SUPER

subsection \<open>The alt-setting handler\<close>

text \<open>
  Lines 1470-1492, \<open>free_ep\<close>: on an enabled endpoint every request is withdrawn and
  freed and the endpoint is disabled.
\<close>

definition free_ep :: "uac2_rtd_params \<Rightarrow> uac2_rtd_params" where
  "free_ep prm =
     (if \<not> ep_enabled prm then prm
      else prm\<lparr>ep_enabled := False, ureq := map (\<lambda>_. None) (ureq prm)\<rparr>)"

text \<open>
  Lines 1794-1801 and 1829-1843 of \<open>afunc_set_alt\<close>: the values computed ahead of the
  completion handler. The interval is \<open>(1 << (bInterval - 1)) * factor\<close> from the
  descriptor of the current speed; the divisions by it cannot fault, since it is 1000
  for either descriptor (lemma \<open>set_alt_pacing_interval\<close>).
\<close>

definition set_alt_pacing ::
  "usb_device_speed \<Rightarrow> f_uac2_opts \<Rightarrow> snd_uac2_chip \<Rightarrow> snd_uac2_chip" where
  "set_alt_pacing speed opts u =
     (let (ep_desc, factor) =
            (if speed = USB_SPEED_FULL then (fs_epin_desc, 1000 :: u32)
             else (hs_epin_desc, 125));
          framesize = p_ssize opts * num_channels (p_chmask opts);
          rate = p_srate opts * framesize;
          interval = push_bit (unat (bInterval ep_desc) - 1) 1 * factor;
          pktsize = min (rate div interval) (max_psize (p_prm u));
          pktsize_residue =
            (if pktsize < max_psize (p_prm u) then rate mod interval else 0)
      in u\<lparr>p_framesize := framesize, p_interval := interval, p_pktsize := pktsize,
           p_pktsize_residue := pktsize_residue, p_residue := 0\<rparr>)"

text \<open>
  Lines 1857-1875: every empty slot gets a fresh request of length \<open>req_len\<close>, and every
  request is queued. An allocation can fail; \<open>budget\<close> is the number of requests the
  allocator still hands out. The loop leaves with \<open>-ENOMEM\<close> at the first failure,
  keeping the slots filled so far.
\<close>

fun queue_requests ::
  "nat \<Rightarrow> u32 \<Rightarrow> usb_request option list \<Rightarrow> int \<times> usb_request option list" where
  "queue_requests budget req_len [] = (0, [])"
| "queue_requests budget req_len (Some r # rs) =
     (let (e, rs') = queue_requests budget req_len rs in (e, Some r # rs'))"
| "queue_requests 0 req_len (None # rs) = (- ENOMEM, None # rs)"
| "queue_requests (Suc n) req_len (None # rs) =
     (let (e, rs') = queue_requests n req_len rs
      in (e, Some \<lparr>status = 0, actual = 0, length_req = req_len\<rparr> # rs'))"

text \<open>Lines 1849-1877, common to both streaming interfaces.\<close>

definition set_alt_finish ::
  "nat \<Rightarrow> pcm_stream \<Rightarrow> u32 \<Rightarrow> u32 \<Rightarrow> f_uac2_opts \<Rightarrow> audio_dev
     \<Rightarrow> int \<times> f_uac2_opts \<times> audio_dev" where
  "set_alt_finish budget d req_len alt opts agdev =
     (let prm = get_prm d (uac2 agdev) in
      if alt = 0
      then (0, opts, agdev\<lparr>uac2 := set_prm d (free_ep prm) (uac2 agdev)\<rparr>)
      else
        let (e, rs) = queue_requests budget req_len (ureq prm)
        in (e, opts,
            agdev\<lparr>uac2 := set_prm d (prm\<lparr>ep_enabled := True, ureq := rs\<rparr>) (uac2 agdev)\<rparr>))"

text \<open>
  Lines 1760-1771 and 1803-1814: a non-zero alt copies the subslot size, the channel
  mask and the bit resolution of its table entry into the configuration. The index is
  within the table, since the caller has checked the alt against its size.
\<close>

definition set_alt_format_out :: "u32 \<Rightarrow> f_uac2_opts \<Rightarrow> f_uac2_opts" where
  "set_alt_format_out alt opts =
     (if alt \<noteq> 0 then
        let a = as_out_alt_setting ! (unat alt - 1)
        in opts\<lparr>c_ssize := ucast (bSubslotSize a),
                c_chmask := bmChannelConfig a,
                c_sres := ucast (bBitResolution a)\<rparr>
      else opts)"

definition set_alt_format_in :: "u32 \<Rightarrow> f_uac2_opts \<Rightarrow> f_uac2_opts" where
  "set_alt_format_in alt opts =
     (if alt \<noteq> 0 then
        let a = as_in_alt_setting ! (unat alt - 1)
        in opts\<lparr>p_ssize := ucast (bSubslotSize a),
                p_chmask := bmChannelConfig a,
                p_sres := ucast (bBitResolution a)\<rparr>
      else opts)"

text \<open>
  Lines 1728-1878, \<open>afunc_set_alt\<close>, at bus speed \<open>speed\<close>. The control interface
  accepts only alt 0 and changes nothing. A streaming interface with an alt of at most
  6 records the alt and, for a non-zero alt, the format. On the IN interface the pacing
  values are then recomputed (for alt 0 as well). Any other interface number or alt is
  an invalid argument. The uevent work that is scheduled and the stop of an open PCM
  stream act on the work queue and on ALSA and leave the state below unchanged.
\<close>

definition afunc_set_alt ::
  "usb_device_speed \<Rightarrow> nat \<Rightarrow> f_uac2_opts \<Rightarrow> audio_dev \<Rightarrow> u32 \<Rightarrow> u32
     \<Rightarrow> int \<times> f_uac2_opts \<times> audio_dev" where
  "afunc_set_alt speed budget opts agdev intf alt =
     (if intf = ucast (ac_intf agdev) then
        (if alt \<noteq> 0 then (- EINVAL, opts, agdev) else (0, opts, agdev))
      else if intf = ucast (as_out_intf agdev) \<and> alt \<le> MAX_AS_OUT_ALT then
        let agdev1 = agdev\<lparr>as_out_alt := ucast alt\<rparr>;
            req_len = max_psize (c_prm (uac2 agdev1));
            opts1 = set_alt_format_out alt opts
        in set_alt_finish budget SNDRV_PCM_STREAM_CAPTURE req_len alt opts1 agdev1
      else if intf = ucast (as_in_intf agdev) \<and> alt \<le> MAX_AS_IN_ALT then
        let agdev1 = agdev\<lparr>as_in_alt := ucast alt\<rparr>;
            opts1 = set_alt_format_in alt opts;
            agdev2 = agdev1\<lparr>uac2 := set_alt_pacing speed opts1 (uac2 agdev1)\<rparr>;
            req_len = p_pktsize (uac2 agdev2)
        in set_alt_finish budget SNDRV_PCM_STREAM_PLAYBACK req_len alt opts1 agdev2
      else (- EINVAL, opts, agdev))"

text \<open>The pacing state of a chip: frame size, interval, base size, per-tick residue, accumulator.\<close>

definition pacing_state :: "snd_uac2_chip \<Rightarrow> u32 \<times> u32 \<times> u32 \<times> u32 \<times> u32" where
  "pacing_state u =
     (p_framesize u, p_interval u, p_pktsize u, p_pktsize_residue u, p_residue u)"

subsection \<open>Control requests\<close>

text \<open>The setup packet, \<^verbatim>\<open>struct usb_ctrlrequest\<close>, its 16-bit fields already in CPU order.\<close>

record usb_ctrlrequest =
  bRequestType :: u8
  bRequest :: u8
  wValue :: u16
  wIndex :: u16
  wLength :: u16

text \<open>
  The request of endpoint zero (\<^verbatim>\<open>cdev->req\<close>): its completion callback, its
  buffer as a list of bytes, and the length and zero flag that \<open>afunc_setup\<close> sets
  before queueing. \<open>zero_req\<close> is the field \<^verbatim>\<open>zero\<close>.
\<close>

datatype completion =
    composite_setup_complete
  | set_p_srate_complete_cb
  | set_c_srate_complete_cb

record ep0_request =
  complete :: completion
  buf :: "u8 list"
  length_ep0 :: int
  zero_req :: bool

text \<open>Little-endian bytes of 16- and 32-bit values, and the 32-bit value read back.\<close>

definition le16 :: "u16 \<Rightarrow> u8 list" where
  "le16 w = [ucast w, ucast (drop_bit 8 w)]"

definition le32 :: "u32 \<Rightarrow> u8 list" where
  "le32 w = [ucast w, ucast (drop_bit 8 w), ucast (drop_bit 16 w), ucast (drop_bit 24 w)]"

fun u32_of_le :: "u8 list \<Rightarrow> u32" where
  "u32_of_le [] = 0"
| "u32_of_le (b # bs) = ucast b OR push_bit 8 (u32_of_le bs)"

text \<open>\<^verbatim>\<open>memcpy(dst, src, n)\<close> onto the start of a buffer, for \<open>n\<close> within both.\<close>

definition memcpy :: "u8 list \<Rightarrow> u8 list \<Rightarrow> nat \<Rightarrow> u8 list" where
  "memcpy dst src n = take n src @ drop n dst"

text \<open>
  Lines 1439-1441, \<^verbatim>\<open>struct cntrl_cur_lay3\<close>, and lines 1459-1468, the packed
  structure that \<^verbatim>\<open>DECLARE_CNTRL_RANGE_LAY3(CLK_FREQ_ARR_SIZE)\<close> declares: the
  sub-range count, the array \<^verbatim>\<open>dRangeAttrs[2][3]\<close>, and then \<open>dMIN\<close>, \<open>dMAX\<close>
  and \<open>dRES\<close>. Being packed, its bytes are those of its fields in this order, 38 in all.
\<close>

record cntrl_cur_lay3 =
  dCUR :: u32

record cntrl_range_lay3_2 =
  wNumSubRanges :: u16
  dRangeAttrs :: "nat \<Rightarrow> nat \<Rightarrow> u32"
  dMIN :: u32
  dMAX :: u32
  dRES :: u32

definition bytes_of_cur :: "cntrl_cur_lay3 \<Rightarrow> u8 list" where
  "bytes_of_cur c = le32 (dCUR c)"

definition bytes_of_range :: "cntrl_range_lay3_2 \<Rightarrow> u8 list" where
  "bytes_of_range r =
     le16 (wNumSubRanges r)
     @ concat (map (\<lambda>i. concat (map (\<lambda>j. le32 (dRangeAttrs r i j)) [0..<3]))
                   [0..<CLK_FREQ_ARR_SIZE])
     @ le32 (dMIN r) @ le32 (dMAX r) @ le32 (dRES r)"

definition sizeof_cur :: nat where
  "sizeof_cur = 4"

definition sizeof_range :: nat where
  "sizeof_range = 2 + CLK_FREQ_ARR_SIZE * 3 * 4 + 3 * 4"

text \<open>The entity id and the control selector of a setup packet, as every handler decodes them.\<close>

definition entity_id :: "usb_ctrlrequest \<Rightarrow> u8" where
  "entity_id cr = ucast (drop_bit 8 (wIndex cr) AND 0xff)"

definition control_selector :: "usb_ctrlrequest \<Rightarrow> u8" where
  "control_selector cr = ucast (drop_bit 8 (wValue cr))"

text \<open>
  Lines 1918-1959, \<open>in_rq_cur\<close>. The local \<^verbatim>\<open>struct cntrl_cur_lay3 c\<close> is not
  initialised: \<open>c0\<close> is what its stack slot holds on entry. For the sample-frequency
  selector the rate of the addressed clock is stored into it, when the entity is one of
  the two clocks, and its first \<open>min(w_length, sizeof c)\<close> bytes are copied to the
  buffer, whatever the entity. The clock-valid selector answers the byte 1.
\<close>

definition in_rq_cur ::
  "cntrl_cur_lay3 \<Rightarrow> f_uac2_opts \<Rightarrow> usb_ctrlrequest \<Rightarrow> ep0_request \<Rightarrow> int \<times> ep0_request" where
  "in_rq_cur c0 opts cr req =
     (if control_selector cr = UAC2_CS_CONTROL_SAM_FREQ then
        let c = (if entity_id cr = USB_IN_CLK_ID then c0\<lparr>dCUR := p_srate opts\<rparr>
                 else if entity_id cr = USB_OUT_CLK_ID then c0\<lparr>dCUR := c_srate opts\<rparr>
                 else c0);
            val = min (unat (wLength cr)) sizeof_cur
        in (int val, req\<lparr>buf := memcpy (buf req) (bytes_of_cur c) val\<rparr>)
      else if control_selector cr = UAC2_CS_CONTROL_CLOCK_VALID then
        (int (min (unat (wLength cr)) 1), req\<lparr>buf := (buf req)[0 := 1]\<rparr>)
      else (- EOPNOTSUPP, req))"

text \<open>
  Lines 1961-2004, \<open>in_rq_range\<close>. The local structure \<open>r\<close> is not initialised:
  \<open>r0\<close> is what its stack slot holds on entry. For the sample-frequency selector an
  entity that is neither clock is refused; otherwise \<open>dMIN\<close>, \<open>dMAX\<close>, \<open>dRES\<close> and
  the count are stored and the first \<open>min(w_length, sizeof r)\<close> bytes of the
  structure are copied to the buffer. \<open>dRangeAttrs\<close> is never written.
\<close>

definition in_rq_range ::
  "cntrl_range_lay3_2 \<Rightarrow> f_uac2_opts \<Rightarrow> usb_ctrlrequest \<Rightarrow> ep0_request
     \<Rightarrow> int \<times> ep0_request" where
  "in_rq_range r0 opts cr req =
     (if control_selector cr = UAC2_CS_CONTROL_SAM_FREQ then
        (if entity_id cr \<noteq> USB_IN_CLK_ID \<and> entity_id cr \<noteq> USB_OUT_CLK_ID
         then (- EOPNOTSUPP, req)
         else
           let r1 = (if entity_id cr = USB_IN_CLK_ID then r0\<lparr>dMIN := p_srate opts\<rparr>
                     else r0\<lparr>dMIN := c_srate opts\<rparr>);
               r2 = r1\<lparr>dMAX := dMIN r1\<rparr>;
               r3 = r2\<lparr>dRES := 0\<rparr>;
               r4 = r3\<lparr>wNumSubRanges := 1\<rparr>;
               val = min (unat (wLength cr)) sizeof_range
           in (int val, req\<lparr>buf := memcpy (buf req) (bytes_of_range r4) val\<rparr>))
      else (- EOPNOTSUPP, req))"

text \<open>Lines 2006-2015, \<open>ac_rq_in\<close>.\<close>

definition ac_rq_in ::
  "cntrl_cur_lay3 \<Rightarrow> cntrl_range_lay3_2 \<Rightarrow> f_uac2_opts \<Rightarrow> usb_ctrlrequest \<Rightarrow> ep0_request
     \<Rightarrow> int \<times> ep0_request" where
  "ac_rq_in c0 r0 opts cr req =
     (if bRequest cr = UAC2_CS_CUR then in_rq_cur c0 opts cr req
      else if bRequest cr = UAC2_CS_RANGE then in_rq_range r0 opts cr req
      else (- EOPNOTSUPP, req))"

text \<open>
  Lines 2024-2033, the loop of the two rate callbacks: the index at which it stops,
  the first position of \<open>v\<close> in the table or the table's size.
\<close>

fun srate_lookup :: "u32 list \<Rightarrow> u32 \<Rightarrow> nat \<Rightarrow> nat" where
  "srate_lookup [] v i = i"
| "srate_lookup (f # fs) v i = (if f = v then i else srate_lookup fs v (Suc i))"

text \<open>
  Lines 2017-2053, \<open>set_p_srate_complete\<close> and \<open>set_c_srate_complete\<close>, the callbacks
  that run once the data stage of a SET CUR has arrived. They read the first four bytes
  of the buffer as one 32-bit value, store it as the rate when the table has it, and log
  an error otherwise. They return nothing.
\<close>

definition set_p_srate_complete :: "f_uac2_opts \<Rightarrow> ep0_request \<Rightarrow> f_uac2_opts \<times> event list" where
  "set_p_srate_complete opts req =
     (let v = u32_of_le (take 4 (buf req));
          i = srate_lookup clk_frequencies v 0;
          (opts1, ev1) = (if i < CLK_FREQ_ARR_SIZE
                          then (opts\<lparr>p_srate := v\<rparr>, [StoreSrate SNDRV_PCM_STREAM_PLAYBACK v])
                          else (opts, []))
      in (opts1, [PrDebug] @ ev1 @ (if i = CLK_FREQ_ARR_SIZE then [PrErr] else [])))"

definition set_c_srate_complete :: "f_uac2_opts \<Rightarrow> ep0_request \<Rightarrow> f_uac2_opts \<times> event list" where
  "set_c_srate_complete opts req =
     (let v = u32_of_le (take 4 (buf req));
          i = srate_lookup clk_frequencies v 0;
          (opts1, ev1) = (if i < CLK_FREQ_ARR_SIZE
                          then (opts\<lparr>c_srate := v\<rparr>, [StoreSrate SNDRV_PCM_STREAM_CAPTURE v])
                          else (opts, []))
      in (opts1, [PrDebug] @ ev1 @ (if i = CLK_FREQ_ARR_SIZE then [PrErr] else [])))"

text \<open>
  The completion of the data stage: the callback stored in the request runs on the
  buffer that now holds the payload. The default callback of the composite layer does
  not touch the configuration.
\<close>

definition ep0_complete :: "f_uac2_opts \<Rightarrow> ep0_request \<Rightarrow> f_uac2_opts \<times> event list" where
  "ep0_complete opts req =
     (case complete req of
        set_p_srate_complete_cb \<Rightarrow> set_p_srate_complete opts req
      | set_c_srate_complete_cb \<Rightarrow> set_c_srate_complete opts req
      | composite_setup_complete \<Rightarrow> (opts, []))"

text \<open>
  Lines 2055-2086, \<open>out_rq_cur\<close>: for the sample-frequency selector the callback of
  the addressed clock is installed (none for another entity) and the length of the data
  stage is returned.
\<close>

definition out_rq_cur :: "usb_ctrlrequest \<Rightarrow> ep0_request \<Rightarrow> int \<times> ep0_request" where
  "out_rq_cur cr req =
     (if control_selector cr = UAC2_CS_CONTROL_SAM_FREQ then
        (int (unat (wLength cr)),
         if entity_id cr = USB_OUT_CLK_ID then req\<lparr>complete := set_c_srate_complete_cb\<rparr>
         else if entity_id cr = USB_IN_CLK_ID then req\<lparr>complete := set_p_srate_complete_cb\<rparr>
         else req)
      else (- EOPNOTSUPP, req))"

text \<open>Lines 2088-2108, \<open>setup_rq_inf\<close>: requests to the control interface only.\<close>

definition setup_rq_inf ::
  "audio_dev \<Rightarrow> cntrl_cur_lay3 \<Rightarrow> cntrl_range_lay3_2 \<Rightarrow> f_uac2_opts \<Rightarrow> usb_ctrlrequest
     \<Rightarrow> ep0_request \<Rightarrow> int \<times> ep0_request" where
  "setup_rq_inf agdev c0 r0 opts cr req =
     (if (ucast (wIndex cr AND 0xff) :: u8) \<noteq> ac_intf agdev then (- EOPNOTSUPP, req)
      else if bRequestType cr AND USB_DIR_IN \<noteq> 0 then ac_rq_in c0 r0 opts cr req
      else if bRequest cr = UAC2_CS_CUR then out_rq_cur cr req
      else (- EOPNOTSUPP, req))"

text \<open>
  Lines 2110-2141, \<open>afunc_setup\<close>: a class request to an interface is dispatched, and a
  non-negative result is the length of the transfer that is queued on endpoint zero;
  \<open>queue_ret\<close> is what \<^verbatim>\<open>usb_ep_queue\<close> returns. A negative result makes the
  composite layer stall the request.
\<close>

definition afunc_setup ::
  "int \<Rightarrow> audio_dev \<Rightarrow> cntrl_cur_lay3 \<Rightarrow> cntrl_range_lay3_2 \<Rightarrow> f_uac2_opts
     \<Rightarrow> usb_ctrlrequest \<Rightarrow> ep0_request \<Rightarrow> int \<times> ep0_request" where
  "afunc_setup queue_ret agdev c0 r0 opts cr req =
     (if bRequestType cr AND USB_TYPE_MASK \<noteq> USB_TYPE_CLASS then (- EOPNOTSUPP, req)
      else
        let (val, req1) =
              (if bRequestType cr AND USB_RECIP_MASK = USB_RECIP_INTERFACE
               then setup_rq_inf agdev c0 r0 opts cr req
               else (- EOPNOTSUPP, req))
        in if 0 \<le> val
           then (queue_ret,
                 req1\<lparr>length_ep0 := val, zero_req := (val < int (unat (wLength cr)))\<rparr>)
           else (val, req1))"

subsection \<open>Sequences of completions and properties of traces\<close>

text \<open>
  A run of pacing ticks, one for each completed playback request: the chip after the
  last tick and the packet length each tick chose.
\<close>

fun pacing_ticks ::
  "snd_uac2_chip \<Rightarrow> usb_request list \<Rightarrow> fault + (snd_uac2_chip \<times> u32 list)" where
  "pacing_ticks u [] = Inr (u, [])"
| "pacing_ticks u (r # rs) =
     (case iso_complete_pacing u r of
        Inl f \<Rightarrow> Inl f
      | Inr (u1, r1) \<Rightarrow>
          (case pacing_ticks u1 rs of
             Inl f \<Rightarrow> Inl f
           | Inr (u2, ls) \<Rightarrow> Inr (u2, length_req r1 # ls)))"

text \<open>
  The bound on the accumulator that a tick maintains: the frame size is not zero, the
  per-tick residue is below the interval, and the accumulator is below frame size times
  interval (a product of natural numbers, which does not wrap).
\<close>

definition pacing_inv :: "snd_uac2_chip \<Rightarrow> bool" where
  "pacing_inv u \<longleftrightarrow>
     p_framesize u \<noteq> 0 \<and> p_pktsize_residue u < p_interval u \<and>
     unat (p_residue u) < unat (p_framesize u) * unat (p_interval u)"

text \<open>
  A run of completions of one direction, stopping at a fault. Each completion names the
  slot whose request is handed back and the status and length the controller reports.
\<close>

fun iso_completions ::
  "pcm_stream \<Rightarrow> snd_uac2_chip \<Rightarrow> (nat \<times> int \<times> u32) list \<Rightarrow> fault + snd_uac2_chip" where
  "iso_completions d u [] = Inr u"
| "iso_completions d u ((i, st, act) # cs) =
     (case agdev_iso_complete d i (giveback_request d i st act u) of
        Inl f \<Rightarrow> Inl f
      | Inr (u1, ev) \<Rightarrow> iso_completions d u1 cs)"

text \<open>
  The number of bytes by which a completion that is not dropped moves the ring position
  (lines 246-260 and 269): for a capture substream the length the controller reports,
  for a playback substream the length of the next packet, which is the base packet size,
  and one frame more when the accumulator with this tick's residue, divided by the
  interval, reaches the frame size.
\<close>

definition iso_advance :: "pcm_stream option \<Rightarrow> snd_uac2_chip \<Rightarrow> u32 \<Rightarrow> u32" where
  "iso_advance stream u act =
     (if stream = Some SNDRV_PCM_STREAM_PLAYBACK
      then (if p_framesize u \<le> (p_residue u + p_pktsize_residue u) div p_interval u
            then p_pktsize u + p_framesize u else p_pktsize u)
      else act)"

text \<open>
  A direction that streams into a ring: a substream is bound, the ring has a capacity
  that is not zero and fits \<^verbatim>\<open>ssize_t\<close>, the type of the ring position, the
  period size is not zero, and a playback substream finds the interval that
  \<open>afunc_set_alt\<close> computed.
\<close>

definition ring_ready :: "pcm_stream \<Rightarrow> snd_uac2_chip \<Rightarrow> bool" where
  "ring_ready d u \<longleftrightarrow>
     ss (get_prm d u) \<noteq> None \<and>
     dma_bytes (get_prm d u) \<noteq> 0 \<and> dma_bytes (get_prm d u) < 2 ^ 63 \<and>
     period_size (get_prm d u) \<noteq> 0 \<and>
     (ss (get_prm d u) = Some SNDRV_PCM_STREAM_PLAYBACK \<longrightarrow> p_interval u \<noteq> 0)"

text \<open>
  Whether every store to the ring position of direction \<open>d\<close> in a trace happens while
  the spinlock of \<open>d\<close> is held; \<open>held\<close> says whether it is held at the start.
\<close>

fun hw_ptr_stores_locked :: "pcm_stream \<Rightarrow> bool \<Rightarrow> event list \<Rightarrow> bool" where
  "hw_ptr_stores_locked d held [] = True"
| "hw_ptr_stores_locked d held (SpinLockIrqsave d' # es) =
     hw_ptr_stores_locked d (held \<or> d' = d) es"
| "hw_ptr_stores_locked d held (SpinUnlockIrqrestore d' # es) =
     hw_ptr_stores_locked d (held \<and> d' \<noteq> d) es"
| "hw_ptr_stores_locked d held (StoreHwPtr d' v # es) =
     ((d' \<noteq> d \<or> held) \<and> hw_ptr_stores_locked d held es)"
| "hw_ptr_stores_locked d held (e # es) = hw_ptr_stores_locked d held es"

text \<open>
  Whether every store to a configured rate in a trace happens while the mutex of the
  configuration is held.
\<close>

fun srate_stores_locked :: "bool \<Rightarrow> event list \<Rightarrow> bool" where
  "srate_stores_locked held [] = True"
| "srate_stores_locked held (MutexLock # es) = srate_stores_locked True es"
| "srate_stores_locked held (MutexUnlock # es) = srate_stores_locked False es"
| "srate_stores_locked held (StoreSrate d v # es) = (held \<and> srate_stores_locked held es)"
| "srate_stores_locked held (e # es) = srate_stores_locked held es"

subsection \<open>A bound function at work\<close>

text \<open>
  The state \<open>afunc_bind\<close> leaves (lines 1541-1617): interfaces 0, 1 and 2, all alts 0,
  no request allocated, and both maximum packet sizes 1023, the full-speed value that
  bind copies into the high-speed descriptors. The configuration asks for stereo 16-bit
  samples at 44100 Hz in, 48000 Hz out.
\<close>

definition prm_bound :: uac2_rtd_params where
  "prm_bound =
     \<lparr>ep_enabled = False, dma_bytes = 0, ss = None, is_pcm_open = False, hw_ptr = 0,
      period_size = 0, max_psize = 1023, ureq = replicate USB_XFERS None\<rparr>"

definition agdev_bound :: audio_dev where
  "agdev_bound =
     \<lparr>ac_intf = 0, ac_alt = 0, as_out_intf = 1, as_out_alt = 0, as_in_intf = 2,
      as_in_alt = 0,
      uac2 = \<lparr>p_prm = prm_bound, c_prm = prm_bound, p_interval = 0, p_residue = 0,
              p_pktsize = 0, p_pktsize_residue = 0, p_framesize = 0\<rparr>\<rparr>"

definition opts_44100 :: f_uac2_opts where
  "opts_44100 =
     \<lparr>p_chmask = 3, p_srate = 44100, p_ssize = 2, p_sres = 16,
      c_chmask = 3, c_srate = 48000, c_ssize = 2, c_sres = 16\<rparr>"

text \<open>
  The host selects alt 2 (stereo, 16 bit) of the IN interface at full speed, and the
  playback chip this leaves; then the same chip with a ring of 4096 bytes in periods
  of 1024 on which playback has started.
\<close>

definition act2 :: "int \<times> f_uac2_opts \<times> audio_dev" where
  "act2 = afunc_set_alt USB_SPEED_FULL 8 opts_44100 agdev_bound 2 2"

definition chip_alt2 :: snd_uac2_chip where
  "chip_alt2 = uac2 (snd (snd act2))"

definition chip_playing :: snd_uac2_chip where
  "chip_playing =
     snd (uac2_pcm_trigger SNDRV_PCM_STREAM_PLAYBACK SNDRV_PCM_TRIGGER_START
            (snd (uac2_pcm_hw_params SNDRV_PCM_STREAM_PLAYBACK 0 4096 1024 chip_alt2)))"

text \<open>A request as the controller hands it back after a good transfer of 176 bytes.\<close>

definition req_done :: usb_request where
  "req_done = \<lparr>status = 0, actual = 176, length_req = 176\<rparr>"

text \<open>
  The first \<open>n\<close> completions of a stream whose eight requests complete in turn, each
  reported good with 176 bytes moved, and the playing chip after them.
\<close>

definition completions_ok :: "nat \<Rightarrow> (nat \<times> int \<times> u32) list" where
  "completions_ok n = map (\<lambda>k. (k mod USB_XFERS, 0, 176)) [0..<n]"

definition chip_after :: "nat \<Rightarrow> snd_uac2_chip" where
  "chip_after n =
     (case iso_completions SNDRV_PCM_STREAM_PLAYBACK chip_playing (completions_ok n) of
        Inr u \<Rightarrow> u
      | Inl f \<Rightarrow> chip_playing)"


text \<open>The request of endpoint zero with an empty buffer of 64 bytes.\<close>

definition req_ep0 :: ep0_request where
  "req_ep0 =
     \<lparr>complete = composite_setup_complete, buf = replicate 64 0, length_ep0 = 0,
      zero_req = False\<rparr>"

text \<open>
  Setup packets of a host, all addressed to interface 0: GET RANGE of the sampling
  frequency of the IN clock (entity 10) asking for 14 bytes, the size of one sub-range
  block; GET CUR of the sampling frequency of entity 7, which is no clock; SET CUR of the
  sampling frequency of the IN clock with a data stage of 4 bytes. Then the request of
  endpoint zero once that data stage has delivered 48000, or 96000.
\<close>

definition get_range_in :: usb_ctrlrequest where
  "get_range_in =
     \<lparr>bRequestType = 0xA1, bRequest = UAC2_CS_RANGE, wValue = 0x0100, wIndex = 0x0A00,
      wLength = 14\<rparr>"

definition get_cur_entity7 :: usb_ctrlrequest where
  "get_cur_entity7 =
     \<lparr>bRequestType = 0xA1, bRequest = UAC2_CS_CUR, wValue = 0x0100, wIndex = 0x0700,
      wLength = 4\<rparr>"

definition set_cur_in :: usb_ctrlrequest where
  "set_cur_in =
     \<lparr>bRequestType = 0x21, bRequest = UAC2_CS_CUR, wValue = 0x0100, wIndex = 0x0A00,
      wLength = 4\<rparr>"

definition req_data_48000 :: ep0_request where
  "req_data_48000 =
     req_ep0\<lparr>complete := set_p_srate_complete_cb, buf := [0x80, 0xBB, 0, 0] @ replicate 60 0\<rparr>"

definition req_data_96000 :: ep0_request where
  "req_data_96000 =
     req_ep0\<lparr>complete := set_p_srate_complete_cb, buf := [0x00, 0x77, 0x01, 0] @ replicate 60 0\<rparr>"

text \<open>
  At high speed the host selects alt 4 (stereo, 24 bit in 3 bytes), returns to alt 0 and
  selects alt 4 again; \<open>short4\<close> is a first selection of alt 4 during which the
  allocator gives out after three requests.
\<close>

definition act4 :: "int \<times> f_uac2_opts \<times> audio_dev" where
  "act4 = afunc_set_alt USB_SPEED_HIGH 8 opts_44100 agdev_bound 2 4"

definition off4 :: "int \<times> f_uac2_opts \<times> audio_dev" where
  "off4 = afunc_set_alt USB_SPEED_HIGH 0 (fst (snd act4)) (snd (snd act4)) 2 0"

definition again4 :: "int \<times> f_uac2_opts \<times> audio_dev" where
  "again4 = afunc_set_alt USB_SPEED_HIGH 8 (fst (snd off4)) (snd (snd off4)) 2 4"

definition short4 :: "int \<times> f_uac2_opts \<times> audio_dev" where
  "short4 = afunc_set_alt USB_SPEED_HIGH 3 opts_44100 agdev_bound 2 4"

text \<open>
  The packet length of tick \<open>k + 1\<close> after activation at 44100 Hz with frames of 4
  bytes and an interval of 1000: every tenth packet carries one frame more.
\<close>

definition pkt_44100 :: "nat \<Rightarrow> nat" where
  "pkt_44100 k = (if Suc k mod 10 = 0 then 180 else 176)"

section \<open>Properties\<close>

subsection \<open>Evaluation of the examples\<close>

lemma num_channels_mono: "num_channels 1 = 1"
  by (simp add: num_channels.simps)

lemma num_channels_stereo: "num_channels 3 = 2"
  by (simp add: num_channels.simps)

lemma chip_alt2_eq:
  "chip_alt2 = \<lparr>p_prm = prm_bound\<lparr>ep_enabled := True,
                   ureq := replicate 8 (Some \<lparr>status = 0, actual = 0, length_req = 176\<rparr>)\<rparr>,
                c_prm = prm_bound, p_interval = 1000, p_residue = 0,
                p_pktsize = 176, p_pktsize_residue = 400, p_framesize = 4\<rparr>"
  by code_simp

subsection \<open>The pacing tick keeps the accumulator bounded\<close>

text \<open>
  The arithmetic of one tick on natural numbers. \<open>a\<close> is the accumulator after the
  addition, which may have wrapped and is therefore at most the sum.
\<close>

lemma residue_step_nat:
  fixes r R F I a :: nat
  assumes r: "r < F * I" and R: "R < I" and F: "1 \<le> F" and a: "a \<le> r + R"
  shows "F \<le> a div I \<Longrightarrow> F * I \<le> a \<and> a - F * I < F * I"
    and "\<not> F \<le> a div I \<Longrightarrow> a < F * I"
proof -
  have I: "0 < I" using R by simp
  have "I \<le> F * I" using F by simp
  then have bound: "a < F * I + F * I" using r R a by linarith
  {
    assume "F \<le> a div I"
    then have "F * I \<le> (a div I) * I" by simp
    also have "\<dots> \<le> a" by simp
    finally have "F * I \<le> a" .
    then show "F * I \<le> a \<and> a - F * I < F * I" using bound by linarith
  }
  {
    assume "\<not> F \<le> a div I"
    then have "a div I < F" by simp
    then show "a < F * I" using I by (simp add: div_less_iff_less_mult)
  }
qed

lemma pacing_step:
  assumes inv: "pacing_inv u"
  shows "\<exists>u1 r1. iso_complete_pacing u r = Inr (u1, r1)
           \<and> u1 = u\<lparr>p_residue := p_residue u1\<rparr>
           \<and> pacing_inv u1
           \<and> (length_req r1 = p_pktsize u \<or> length_req r1 = p_pktsize u + p_framesize u)
           \<and> actual r1 = length_req r1 \<and> status r1 = status r"
proof -
  let ?F = "unat (p_framesize u)" and ?I = "unat (p_interval u)"
  let ?a = "unat (p_residue u + p_pktsize_residue u)"
  from inv have Fz: "p_framesize u \<noteq> 0" and RI: "p_pktsize_residue u < p_interval u"
    and r: "unat (p_residue u) < ?F * ?I"
    by (simp_all add: pacing_inv_def)
  have Iz: "p_interval u \<noteq> 0" using RI by auto
  have F1: "1 \<le> ?F" using Fz by (simp add: Suc_le_eq unat_gt_0)
  have R: "unat (p_pktsize_residue u) < ?I" using RI by (simp add: word_less_nat_alt)
  have a: "?a \<le> unat (p_residue u) + unat (p_pktsize_residue u)"
    by (simp add: unat_word_ariths)
  have cond: "p_framesize u \<le> (p_residue u + p_pktsize_residue u) div p_interval u
                \<longleftrightarrow> ?F \<le> ?a div ?I"
    by (simp add: word_le_nat_alt unat_div)
  show ?thesis
  proof (cases "?F \<le> ?a div ?I")
    case True
    from residue_step_nat(1) [OF r R F1 a True]
    have le: "?F * ?I \<le> ?a" and lt: "?a - ?F * ?I < ?F * ?I" by simp_all
    have "?a < 2 ^ LENGTH(32)"
      by (rule unsigned_less [where 'a = nat])
    then have "?F * ?I < 2 ^ LENGTH(32)" using le by linarith
    then have m: "unat (p_framesize u * p_interval u) = ?F * ?I"
      by (rule iffD1 [OF unat_mult_lem])
    have "p_framesize u * p_interval u \<le> p_residue u + p_pktsize_residue u"
      using le m by (simp add: word_le_nat_alt)
    then have "unat (p_residue u + p_pktsize_residue u - p_framesize u * p_interval u)
                 = ?a - ?F * ?I"
      using m by (simp add: unat_sub)
    then show ?thesis using True cond Iz Fz RI lt
      by (simp add: iso_complete_pacing_def Let_def pacing_inv_def)
  next
    case False
    from residue_step_nat(2) [OF r R F1 a False]
    show ?thesis using False cond Iz Fz RI
      by (simp add: iso_complete_pacing_def Let_def pacing_inv_def)
  qed
qed


lemma pacing_ticks_inv:
  assumes "pacing_inv u"
  shows "\<exists>u' ls. pacing_ticks u rs = Inr (u', ls)
           \<and> u' = u\<lparr>p_residue := p_residue u'\<rparr>
           \<and> pacing_inv u'
           \<and> length ls = length rs
           \<and> (\<forall>l \<in> set ls. l = p_pktsize u \<or> l = p_pktsize u + p_framesize u)"
  using assms
proof (induction rs arbitrary: u)
  case Nil
  then show ?case by simp
next
  case (Cons r rs)
  from pacing_step [OF Cons.prems, of r] obtain u1 r1 where
    step: "iso_complete_pacing u r = Inr (u1, r1)"
    and same: "u1 = u\<lparr>p_residue := p_residue u1\<rparr>"
    and inv1: "pacing_inv u1"
    and len: "length_req r1 = p_pktsize u \<or> length_req r1 = p_pktsize u + p_framesize u"
    by blast
  from Cons.IH [OF inv1] obtain u' ls where
    run: "pacing_ticks u1 rs = Inr (u', ls)"
    and same': "u' = u1\<lparr>p_residue := p_residue u'\<rparr>"
    and inv': "pacing_inv u'"
    and n: "length ls = length rs"
    and lens: "\<forall>l \<in> set ls. l = p_pktsize u1 \<or> l = p_pktsize u1 + p_framesize u1"
    by blast
  have p1: "p_pktsize u1 = p_pktsize u" "p_framesize u1 = p_framesize u"
    by (subst same, simp)+
  have "u' = u\<lparr>p_residue := p_residue u'\<rparr>"
    by (subst same', subst same, simp)
  then show ?case using step run inv' n lens len p1 by simp
qed

text \<open>
  C10. When the frame size is at least 1, the per-tick residue is below the interval and
  the accumulator starts at 0, every run of playback pacing ticks returns, leaves the
  accumulator strictly below frame size times interval, and every packet length it emits
  is the base packet size or the base packet size plus one frame size (also as natural
  numbers, when that sum fits 32 bits).
\<close>

theorem pacing_residue_bound:
  assumes "1 \<le> p_framesize u" and "p_pktsize_residue u < p_interval u" and "p_residue u = 0"
  shows "\<exists>u' ls. pacing_ticks u rs = Inr (u', ls)
           \<and> unat (p_residue u') < unat (p_framesize u) * unat (p_interval u)
           \<and> length ls = length rs
           \<and> (\<forall>l \<in> set ls. l = p_pktsize u \<or> l = p_pktsize u + p_framesize u)
           \<and> (unat (p_pktsize u) + unat (p_framesize u) < 2 ^ 32 \<longrightarrow>
                (\<forall>l \<in> set ls. unat l = unat (p_pktsize u)
                      \<or> unat l = unat (p_pktsize u) + unat (p_framesize u)))"
proof -
  have Fz: "p_framesize u \<noteq> 0" using assms(1) by auto
  have "0 < unat (p_framesize u)" using Fz by (simp add: unat_gt_0)
  moreover have "0 < unat (p_interval u)"
    using assms(2) by (simp add: word_less_nat_alt)
  ultimately have "pacing_inv u"
    using assms Fz by (simp add: pacing_inv_def)
  from pacing_ticks_inv [OF this, of rs] obtain u' ls where
    run: "pacing_ticks u rs = Inr (u', ls)"
    and same: "u' = u\<lparr>p_residue := p_residue u'\<rparr>"
    and inv: "pacing_inv u'"
    and n: "length ls = length rs"
    and lens: "\<forall>l \<in> set ls. l = p_pktsize u \<or> l = p_pktsize u + p_framesize u"
    by blast
  have p: "p_framesize u' = p_framesize u" "p_interval u' = p_interval u"
    by (subst same, simp)+
  have bound: "unat (p_residue u') < unat (p_framesize u) * unat (p_interval u)"
    using inv p by (simp add: pacing_inv_def)
  have nat_lens: "\<forall>l \<in> set ls. unat l = unat (p_pktsize u)
                      \<or> unat l = unat (p_pktsize u) + unat (p_framesize u)"
    if "unat (p_pktsize u) + unat (p_framesize u) < 2 ^ 32"
  proof -
    have "unat (p_pktsize u + p_framesize u) = unat (p_pktsize u) + unat (p_framesize u)"
      using that by (simp add: unat_word_ariths)
    then show ?thesis using lens by auto
  qed
  show ?thesis using run bound n lens nat_lens by blast
qed

lemma chip_alt2_ticks10:
  "pacing_ticks chip_alt2 (replicate 10 req_done)
     = Inr (chip_alt2, [176, 176, 176, 176, 176, 176, 176, 176, 176, 180])"
  by code_simp

theorem pacing_residue_bound_witness:
  "1 \<le> p_framesize chip_alt2 \<and> p_pktsize_residue chip_alt2 < p_interval chip_alt2
   \<and> p_residue chip_alt2 = 0
   \<and> pacing_ticks chip_alt2 (replicate 10 req_done)
        = Inr (chip_alt2, [176, 176, 176, 176, 176, 176, 176, 176, 176, 180])
   \<and> unat (p_residue chip_alt2) < unat (p_framesize chip_alt2) * unat (p_interval chip_alt2)
   \<and> unat (p_pktsize chip_alt2) + unat (p_framesize chip_alt2) < 2 ^ 32
   \<and> unat (180 :: u32) = unat (p_pktsize chip_alt2) + unat (p_framesize chip_alt2)"
proof -
  have h1: "1 \<le> p_framesize chip_alt2" by (simp add: chip_alt2_eq)
  have h2: "p_pktsize_residue chip_alt2 < p_interval chip_alt2" by (simp add: chip_alt2_eq)
  have h3: "p_residue chip_alt2 = 0" by (simp add: chip_alt2_eq)
  have h4: "unat (p_pktsize chip_alt2) + unat (p_framesize chip_alt2) < 2 ^ 32"
    by (simp add: chip_alt2_eq)
  from pacing_residue_bound [OF h1 h2 h3, of "replicate 10 req_done"]
  obtain u' ls where
    run: "pacing_ticks chip_alt2 (replicate 10 req_done) = Inr (u', ls)"
    and b: "unat (p_residue u') < unat (p_framesize chip_alt2) * unat (p_interval chip_alt2)"
    and n: "unat (p_pktsize chip_alt2) + unat (p_framesize chip_alt2) < 2 ^ 32 \<longrightarrow>
              (\<forall>l \<in> set ls. unat l = unat (p_pktsize chip_alt2)
                    \<or> unat l = unat (p_pktsize chip_alt2) + unat (p_framesize chip_alt2))"
    by blast
  from trans [OF run [symmetric] chip_alt2_ticks10]
  have e: "u' = chip_alt2" "ls = [176, 176, 176, 176, 176, 176, 176, 176, 176, 180]"
    by simp_all
  have "unat (180 :: u32) = unat (p_pktsize chip_alt2)
          \<or> unat (180 :: u32) = unat (p_pktsize chip_alt2) + unat (p_framesize chip_alt2)"
    using n h4 by (simp add: e)
  then have l: "unat (180 :: u32) = unat (p_pktsize chip_alt2) + unat (p_framesize chip_alt2)"
    by (simp add: chip_alt2_eq)
  have "unat (p_residue chip_alt2)
          < unat (p_framesize chip_alt2) * unat (p_interval chip_alt2)"
    using b by (simp only: e)
  then show ?thesis using h1 h2 h3 h4 chip_alt2_ticks10 l by (intro conjI)
qed

subsection \<open>The alt-setting handler\<close>

lemma alt_cases:
  fixes alt :: u32
  assumes "alt \<noteq> 0" and "alt \<le> 6"
  shows "alt = 1 \<or> alt = 2 \<or> alt = 3 \<or> alt = 4 \<or> alt = 5 \<or> alt = 6"
proof -
  have "unat alt \<le> 6" using assms(2) by (simp add: word_le_nat_alt)
  moreover have "unat alt \<noteq> 0" using assms(1) by (simp add: unat_eq_zero)
  ultimately have "unat alt = 1 \<or> unat alt = 2 \<or> unat alt = 3 \<or> unat alt = 4
                     \<or> unat alt = 5 \<or> unat alt = 6"
    by arith
  moreover have "alt = of_nat (unat alt)" by simp
  ultimately show ?thesis by (elim disjE) simp_all
qed

lemma in_alt_framesize:
  fixes alt :: u32
  assumes "alt \<noteq> 0" and "alt \<le> 6"
  shows "p_ssize (set_alt_format_in alt opts) * num_channels (p_chmask (set_alt_format_in alt opts))
           \<in> {2, 3, 4, 6, 8}"
  using alt_cases [OF assms]
  by (elim disjE)
     (simp_all add: set_alt_format_in_def as_in_alt_setting_def INIT_USB_ALT_SETTING_def
        UAC2_MONO_def UAC2_STEREO_def UAC2_MONO_CH_CONFIG_def UAC2_STEREO_CH_CONFIG_def
        num_channels_mono num_channels_stereo Let_def)

lemma set_alt_format_in_srate: "p_srate (set_alt_format_in alt opts) = p_srate opts"
  by (simp add: set_alt_format_in_def Let_def)

lemma set_alt_pacing_interval: "p_interval (set_alt_pacing speed opts u) = 1000"
  by (simp add: set_alt_pacing_def fs_epin_desc_def hs_epin_desc_def Let_def)

lemma set_alt_pacing_fields:
  "p_framesize (set_alt_pacing speed opts u) = p_ssize opts * num_channels (p_chmask opts)"
  "p_pktsize (set_alt_pacing speed opts u)
     = min (p_srate opts * (p_ssize opts * num_channels (p_chmask opts)) div 1000)
           (max_psize (p_prm u))"
  "p_pktsize_residue (set_alt_pacing speed opts u)
     = (if p_pktsize (set_alt_pacing speed opts u) < max_psize (p_prm u)
        then p_srate opts * (p_ssize opts * num_channels (p_chmask opts)) mod 1000 else 0)"
  "p_residue (set_alt_pacing speed opts u) = 0"
  "p_prm (set_alt_pacing speed opts u) = p_prm u"
  "c_prm (set_alt_pacing speed opts u) = c_prm u"
  by (simp_all add: set_alt_pacing_def fs_epin_desc_def hs_epin_desc_def Let_def)

lemma set_prm_pacing [simp]: "pacing_state (set_prm d p u) = pacing_state u"
  by (cases d) (simp_all add: pacing_state_def)

lemma get_set_prm [simp]: "get_prm d (set_prm d p u) = p"
  by (cases d) simp_all

lemma set_alt_finish_pacing:
  "pacing_state (uac2 (snd (snd (set_alt_finish budget d req_len alt opts agdev))))
     = pacing_state (uac2 agdev)"
  by (simp add: set_alt_finish_def Let_def split: prod.split)

lemma set_alt_finish_opts:
  "fst (snd (set_alt_finish budget d req_len alt opts agdev)) = opts"
  by (simp add: set_alt_finish_def Let_def split: prod.split)

lemma set_alt_finish_max_psize:
  "max_psize (p_prm (uac2 (snd (snd (set_alt_finish budget d req_len alt opts agdev)))))
     = max_psize (p_prm (uac2 agdev))"
  by (cases d) (simp_all add: set_alt_finish_def free_ep_def Let_def split: prod.split)

lemma set_alt_finish_intf:
  "ac_intf (snd (snd (set_alt_finish budget d req_len alt opts agdev))) = ac_intf agdev"
  "as_out_intf (snd (snd (set_alt_finish budget d req_len alt opts agdev))) = as_out_intf agdev"
  "as_in_intf (snd (snd (set_alt_finish budget d req_len alt opts agdev))) = as_in_intf agdev"
  by (simp_all add: set_alt_finish_def Let_def split: prod.split)

text \<open>What a call on the IN interface leaves, whatever the allocator does.\<close>

lemma set_alt_in:
  assumes "intf \<noteq> ucast (ac_intf agdev)" and "intf \<noteq> ucast (as_out_intf agdev)"
    and "intf = ucast (as_in_intf agdev)" and "alt \<le> 6"
    and "afunc_set_alt speed budget opts agdev intf alt = (ret, opts', agdev')"
  shows "opts' = set_alt_format_in alt opts"
    and "pacing_state (uac2 agdev') = pacing_state (set_alt_pacing speed opts' (uac2 agdev))"
    and "max_psize (p_prm (uac2 agdev')) = max_psize (p_prm (uac2 agdev))"
    and "ac_intf agdev' = ac_intf agdev" and "as_out_intf agdev' = as_out_intf agdev"
    and "as_in_intf agdev' = as_in_intf agdev"
proof -
  let ?o = "set_alt_format_in alt opts"
  let ?a = "agdev\<lparr>as_in_alt := ucast alt,
                   uac2 := set_alt_pacing speed ?o (uac2 agdev)\<rparr>"
  let ?l = "p_pktsize (set_alt_pacing speed ?o (uac2 agdev))"
  have "afunc_set_alt speed budget opts agdev intf alt
          = set_alt_finish budget SNDRV_PCM_STREAM_PLAYBACK ?l alt ?o ?a"
    using assms(1-4) by (simp add: afunc_set_alt_def MAX_AS_IN_ALT_def Let_def)
  then have fin: "set_alt_finish budget SNDRV_PCM_STREAM_PLAYBACK ?l alt ?o ?a
                    = (ret, opts', agdev')"
    using assms(5) by simp
  show o: "opts' = ?o"
    using set_alt_finish_opts [of budget SNDRV_PCM_STREAM_PLAYBACK ?l alt ?o ?a]
    by (simp add: fin)
  show "pacing_state (uac2 agdev') = pacing_state (set_alt_pacing speed opts' (uac2 agdev))"
    using set_alt_finish_pacing [of budget SNDRV_PCM_STREAM_PLAYBACK ?l alt ?o ?a]
    by (simp add: fin o)
  have "max_psize (p_prm (uac2 agdev')) = max_psize (p_prm (uac2 ?a))"
    using set_alt_finish_max_psize [of budget SNDRV_PCM_STREAM_PLAYBACK ?l alt ?o ?a]
    by (simp add: fin)
  then show "max_psize (p_prm (uac2 agdev')) = max_psize (p_prm (uac2 agdev))"
    by (simp add: set_alt_pacing_fields)
  show "ac_intf agdev' = ac_intf agdev" "as_out_intf agdev' = as_out_intf agdev"
    "as_in_intf agdev' = as_in_intf agdev"
    using set_alt_finish_intf [of budget SNDRV_PCM_STREAM_PLAYBACK ?l alt ?o ?a]
    by (simp_all add: fin)
qed

lemma unat_min_u32: "unat (min a b) = min (unat a) (unat (b::u32))"
  by (simp add: min_def word_le_nat_alt)

lemma set_alt_in_pacing_inv:
  assumes "intf \<noteq> ucast (ac_intf agdev)" and "intf \<noteq> ucast (as_out_intf agdev)"
    and "intf = ucast (as_in_intf agdev)" and "alt \<noteq> 0" and "alt \<le> 6"
    and "afunc_set_alt speed budget opts agdev intf alt = (ret, opts', agdev')"
  shows "pacing_inv (uac2 agdev')" and "p_residue (uac2 agdev') = 0"
    and "p_interval (uac2 agdev') = 1000"
    and "p_framesize (uac2 agdev') \<in> {2, 3, 4, 6, 8}"
proof -
  let ?u = "set_alt_pacing speed opts' (uac2 agdev)"
  have o: "opts' = set_alt_format_in alt opts"
    by (rule set_alt_in(1) [OF assms(1-3,5,6)])
  have ps: "pacing_state (uac2 agdev') = pacing_state ?u"
    by (rule set_alt_in(2) [OF assms(1-3,5,6)])
  have F: "p_framesize ?u \<in> {2, 3, 4, 6, 8}"
    using in_alt_framesize [OF assms(4,5), of opts] by (simp add: set_alt_pacing_fields o)
  have f: "p_framesize (uac2 agdev') = p_framesize ?u"
    and i: "p_interval (uac2 agdev') = 1000"
    and r: "p_pktsize_residue (uac2 agdev') = p_pktsize_residue ?u"
    and z: "p_residue (uac2 agdev') = 0"
    using ps by (simp_all add: pacing_state_def set_alt_pacing_fields(4) set_alt_pacing_interval)
  have "p_srate opts' * (p_ssize opts' * num_channels (p_chmask opts')) mod 1000 < (1000::u32)"
    by (rule word_mod_less_divisor) simp
  then have R: "p_pktsize_residue ?u < 1000"
    by (simp add: set_alt_pacing_fields(3))
  show "p_residue (uac2 agdev') = 0" by (rule z)
  show "p_interval (uac2 agdev') = 1000" by (rule i)
  show "p_framesize (uac2 agdev') \<in> {2, 3, 4, 6, 8}" using F by (simp add: f)
  show "pacing_inv (uac2 agdev')"
    using F R by (auto simp add: pacing_inv_def f i r z)
qed

lemma bound_intf:
  "(2::u32) \<noteq> ucast (ac_intf agdev_bound)" "(2::u32) \<noteq> ucast (as_out_intf agdev_bound)"
  "(2::u32) = ucast (as_in_intf agdev_bound)"
  by (simp_all add: agdev_bound_def)

lemma four_alt: "(4::u32) \<noteq> 0" "(4::u32) \<le> 6"
  by simp_all

lemma act4_eq: "afunc_set_alt USB_SPEED_HIGH 8 opts_44100 agdev_bound 2 4
                  = (fst act4, fst (snd act4), snd (snd act4))"
  by (simp add: act4_def)

lemma act4_pacing: "pacing_state (uac2 (snd (snd act4))) = (6, 1000, 264, 600, 0)"
  by code_simp

lemma short4_eq: "afunc_set_alt USB_SPEED_HIGH 3 opts_44100 agdev_bound 2 4
                  = (fst short4, fst (snd short4), snd (snd short4))"
  by (simp add: short4_def)

lemma off4_eq: "afunc_set_alt USB_SPEED_HIGH 0 (fst (snd act4)) (snd (snd act4)) 2 0
                  = (fst off4, fst (snd off4), snd (snd off4))"
  by (simp add: off4_def)

lemma again4_eq: "afunc_set_alt USB_SPEED_HIGH 8 (fst (snd off4)) (snd (snd off4)) 2 4
                  = (fst again4, fst (snd again4), snd (snd again4))"
  by (simp add: again4_def)

text \<open>
  C4. A call of the alt-setting handler that activates a non-zero alt of the IN
  (playback) interface recomputes the pacing values in 32-bit unsigned arithmetic: the
  frame size from the format of the alt, the interval 1000, the base packet size as the
  minimum of rate times frame size divided by the interval and the maximum packet size,
  the per-tick residue as 0 when the base equals that maximum and as rate times frame
  size modulo the interval otherwise, and the accumulator 0. When rate times frame size
  fits 32 bits the same equations hold for the natural numbers.
\<close>

theorem set_alt_pacing_values:
  assumes "intf \<noteq> ucast (ac_intf agdev)" and "intf \<noteq> ucast (as_out_intf agdev)"
    and "intf = ucast (as_in_intf agdev)" and "alt \<noteq> 0" and "alt \<le> 6"
    and "afunc_set_alt speed budget opts agdev intf alt = (ret, opts', agdev')"
  shows "p_srate opts' = p_srate opts
       \<and> p_framesize (uac2 agdev') = p_ssize opts' * num_channels (p_chmask opts')
       \<and> p_interval (uac2 agdev') = 1000
       \<and> p_pktsize (uac2 agdev')
           = min (p_srate opts * p_framesize (uac2 agdev') div p_interval (uac2 agdev'))
                 (max_psize (p_prm (uac2 agdev)))
       \<and> p_pktsize_residue (uac2 agdev')
           = (if p_pktsize (uac2 agdev') = max_psize (p_prm (uac2 agdev)) then 0
              else p_srate opts * p_framesize (uac2 agdev') mod p_interval (uac2 agdev'))
       \<and> p_residue (uac2 agdev') = 0
       \<and> (unat (p_srate opts) * unat (p_framesize (uac2 agdev')) < 2 ^ 32 \<longrightarrow>
            unat (p_pktsize (uac2 agdev'))
              = min (unat (p_srate opts) * unat (p_framesize (uac2 agdev')) div 1000)
                    (unat (max_psize (p_prm (uac2 agdev))))
            \<and> unat (p_pktsize_residue (uac2 agdev'))
              = (if unat (p_pktsize (uac2 agdev')) = unat (max_psize (p_prm (uac2 agdev)))
                 then 0
                 else unat (p_srate opts) * unat (p_framesize (uac2 agdev')) mod 1000))"
proof -
  let ?u = "set_alt_pacing speed opts' (uac2 agdev)"
  let ?F = "p_ssize opts' * num_channels (p_chmask opts')"
  let ?M = "max_psize (p_prm (uac2 agdev))"
  have o: "opts' = set_alt_format_in alt opts"
    by (rule set_alt_in(1) [OF assms(1-3,5,6)])
  have ps: "pacing_state (uac2 agdev') = pacing_state ?u"
    by (rule set_alt_in(2) [OF assms(1-3,5,6)])
  have sr: "p_srate opts' = p_srate opts"
    by (simp add: o set_alt_format_in_srate)
  have f: "p_framesize (uac2 agdev') = ?F"
    and i: "p_interval (uac2 agdev') = 1000"
    and k: "p_pktsize (uac2 agdev') = min (p_srate opts * ?F div 1000) ?M"
    and r: "p_pktsize_residue (uac2 agdev')
              = (if p_pktsize (uac2 agdev') < ?M then p_srate opts * ?F mod 1000 else 0)"
    and z: "p_residue (uac2 agdev') = 0"
    using ps sr by (simp_all add: pacing_state_def set_alt_pacing_fields set_alt_pacing_interval)
  have le: "p_pktsize (uac2 agdev') \<le> ?M" by (simp add: k)
  have r': "p_pktsize_residue (uac2 agdev')
              = (if p_pktsize (uac2 agdev') = ?M then 0 else p_srate opts * ?F mod 1000)"
    using le by (auto simp add: r)
  have nat_part: "unat (p_pktsize (uac2 agdev'))
              = min (unat (p_srate opts) * unat ?F div 1000) (unat ?M)
            \<and> unat (p_pktsize_residue (uac2 agdev'))
              = (if unat (p_pktsize (uac2 agdev')) = unat ?M then 0
                 else unat (p_srate opts) * unat ?F mod 1000)"
    if "unat (p_srate opts) * unat ?F < 2 ^ 32"
  proof -
    have "unat (p_srate opts) * unat ?F < 2 ^ LENGTH(32)" using that by simp
    then have m: "unat (p_srate opts * ?F) = unat (p_srate opts) * unat ?F"
      by (rule iffD1 [OF unat_mult_lem])
    have t: "unat (1000 :: u32) = 1000" by simp
    have "unat (p_pktsize (uac2 agdev'))
            = min (unat (p_srate opts) * unat ?F div 1000) (unat ?M)"
      by (simp only: k unat_min_u32 unat_div m t)
    moreover have "unat (p_pktsize_residue (uac2 agdev'))
              = (if unat (p_pktsize (uac2 agdev')) = unat ?M then 0
                 else unat (p_srate opts) * unat ?F mod 1000)"
      by (simp add: r' unat_mod m word_unat_eq_iff [symmetric])
    ultimately show ?thesis by blast
  qed
  show ?thesis using sr f i k r' z nat_part by (simp add: f)
qed

theorem set_alt_pacing_values_witness:
  "(2::u32) \<noteq> ucast (ac_intf agdev_bound) \<and> (2::u32) \<noteq> ucast (as_out_intf agdev_bound)
   \<and> (2::u32) = ucast (as_in_intf agdev_bound) \<and> (4::u32) \<noteq> 0 \<and> (4::u32) \<le> 6
   \<and> afunc_set_alt USB_SPEED_HIGH 8 opts_44100 agdev_bound 2 4
        = (fst act4, fst (snd act4), snd (snd act4))
   \<and> pacing_state (uac2 (snd (snd act4))) = (6, 1000, 264, 600, 0)
   \<and> unat (p_srate opts_44100) * unat (p_framesize (uac2 (snd (snd act4)))) < 2 ^ 32
   \<and> p_pktsize (uac2 (snd (snd act4)))
        = min (p_srate opts_44100 * p_framesize (uac2 (snd (snd act4)))
                 div p_interval (uac2 (snd (snd act4))))
              (max_psize (p_prm (uac2 agdev_bound)))
   \<and> unat (p_pktsize (uac2 (snd (snd act4))))
        = min (unat (p_srate opts_44100) * unat (p_framesize (uac2 (snd (snd act4)))) div 1000)
              (unat (max_psize (p_prm (uac2 agdev_bound))))"
proof -
  note t = set_alt_pacing_values [OF bound_intf four_alt act4_eq]
  have small: "unat (p_srate opts_44100) * unat (p_framesize (uac2 (snd (snd act4)))) < 2 ^ 32"
    using act4_pacing by (simp add: pacing_state_def opts_44100_def)
  have a: "p_pktsize (uac2 (snd (snd act4)))
        = min (p_srate opts_44100 * p_framesize (uac2 (snd (snd act4)))
                 div p_interval (uac2 (snd (snd act4))))
              (max_psize (p_prm (uac2 agdev_bound)))"
    using t by blast
  have b: "unat (p_pktsize (uac2 (snd (snd act4))))
        = min (unat (p_srate opts_44100) * unat (p_framesize (uac2 (snd (snd act4)))) div 1000)
              (unat (max_psize (p_prm (uac2 agdev_bound))))"
    using t small by blast
  show ?thesis
    using bound_intf four_alt act4_eq act4_pacing small a b by (intro conjI)
qed

text \<open>
  C8. On the control interface a non-zero alt is refused with \<open>-EINVAL\<close> and alt 0
  succeeds, both without any change of state. An interface number that is none of the
  three interfaces, and an alt above 6 on any interface, are refused with
  \<open>-EINVAL\<close> and leave the state unchanged.
\<close>

theorem set_alt_invalid:
  "(intf = ucast (ac_intf agdev) \<and> alt \<noteq> 0 \<longrightarrow>
      afunc_set_alt speed budget opts agdev intf alt = (- EINVAL, opts, agdev))
   \<and> (intf = ucast (ac_intf agdev) \<and> alt = 0 \<longrightarrow>
      afunc_set_alt speed budget opts agdev intf alt = (0, opts, agdev))
   \<and> (intf \<noteq> ucast (ac_intf agdev) \<and> intf \<noteq> ucast (as_out_intf agdev)
        \<and> intf \<noteq> ucast (as_in_intf agdev) \<longrightarrow>
      afunc_set_alt speed budget opts agdev intf alt = (- EINVAL, opts, agdev))
   \<and> (6 < alt \<longrightarrow>
      afunc_set_alt speed budget opts agdev intf alt = (- EINVAL, opts, agdev))"
proof -
  have "\<not> alt \<le> 6" "alt \<noteq> 0" if "6 < alt"
    using that by (auto simp add: not_le)
  then show ?thesis
    by (auto simp add: afunc_set_alt_def MAX_AS_OUT_ALT_def MAX_AS_IN_ALT_def)
qed

theorem set_alt_invalid_witness:
  "(0::u32) = ucast (ac_intf agdev_bound) \<and> (1::u32) \<noteq> 0
   \<and> afunc_set_alt USB_SPEED_HIGH 8 opts_44100 agdev_bound 0 1
        = (- EINVAL, opts_44100, agdev_bound)
   \<and> afunc_set_alt USB_SPEED_HIGH 8 opts_44100 agdev_bound 0 0 = (0, opts_44100, agdev_bound)
   \<and> (3::u32) \<noteq> ucast (ac_intf agdev_bound) \<and> (3::u32) \<noteq> ucast (as_out_intf agdev_bound)
   \<and> (3::u32) \<noteq> ucast (as_in_intf agdev_bound)
   \<and> afunc_set_alt USB_SPEED_HIGH 8 opts_44100 agdev_bound 3 1
        = (- EINVAL, opts_44100, agdev_bound)
   \<and> (6::u32) < 7
   \<and> afunc_set_alt USB_SPEED_HIGH 8 opts_44100 agdev_bound 2 7
        = (- EINVAL, opts_44100, agdev_bound)"
proof -
  have c: "(0::u32) = ucast (ac_intf agdev_bound)" "(1::u32) \<noteq> 0"
    and u: "(3::u32) \<noteq> ucast (ac_intf agdev_bound)"
      "(3::u32) \<noteq> ucast (as_out_intf agdev_bound)" "(3::u32) \<noteq> ucast (as_in_intf agdev_bound)"
    and s: "(6::u32) < 7"
    by (simp_all add: agdev_bound_def)
  have "afunc_set_alt USB_SPEED_HIGH 8 opts_44100 agdev_bound 0 1
          = (- EINVAL, opts_44100, agdev_bound)"
    using set_alt_invalid [of 0 agdev_bound 1 USB_SPEED_HIGH 8 opts_44100] c by blast
  moreover have "afunc_set_alt USB_SPEED_HIGH 8 opts_44100 agdev_bound 0 0
          = (0, opts_44100, agdev_bound)"
    using set_alt_invalid [of 0 agdev_bound 0 USB_SPEED_HIGH 8 opts_44100] c by blast
  moreover have "afunc_set_alt USB_SPEED_HIGH 8 opts_44100 agdev_bound 3 1
          = (- EINVAL, opts_44100, agdev_bound)"
    using set_alt_invalid [of 3 agdev_bound 1 USB_SPEED_HIGH 8 opts_44100] u by blast
  moreover have "afunc_set_alt USB_SPEED_HIGH 8 opts_44100 agdev_bound 2 7
          = (- EINVAL, opts_44100, agdev_bound)"
    using set_alt_invalid [of 2 agdev_bound 7 USB_SPEED_HIGH 8 opts_44100] s by blast
  ultimately show ?thesis using c u s by (intro conjI)
qed

text \<open>
  C9. For an alt \<open>k\<close> from 1 to 6 of the IN interface, activating \<open>k\<close>, returning
  to alt 0 and activating \<open>k\<close> again leaves the same pacing state (frame size,
  interval, base size, per-tick residue, accumulator) as one activation of \<open>k\<close> from
  any state with the same configured rate, maximum packet size and bus speed, whatever
  the allocator does in any of the calls.
\<close>

theorem set_alt_reactivation:
  assumes "intf \<noteq> ucast (ac_intf agdev)" and "intf \<noteq> ucast (as_out_intf agdev)"
    and "intf = ucast (as_in_intf agdev)" and "k \<noteq> 0" and "k \<le> 6"
    and first: "afunc_set_alt speed b1 opts agdev intf k = (r1, opts1, agdev1)"
    and off: "afunc_set_alt speed b2 opts1 agdev1 intf 0 = (r2, opts2, agdev2)"
    and again: "afunc_set_alt speed b3 opts2 agdev2 intf k = (r3, opts3, agdev3)"
    and "intf \<noteq> ucast (ac_intf agdev0)" and "intf \<noteq> ucast (as_out_intf agdev0)"
    and "intf = ucast (as_in_intf agdev0)"
    and "p_srate opts0 = p_srate opts"
    and "max_psize (p_prm (uac2 agdev0)) = max_psize (p_prm (uac2 agdev))"
    and fresh: "afunc_set_alt speed b0 opts0 agdev0 intf k = (r0, opts0', agdev0')"
  shows "pacing_state (uac2 agdev3) = pacing_state (uac2 agdev0')"
proof -
  have z: "(0::u32) \<le> 6" by simp
  note s1 = set_alt_in [OF assms(1-3) \<open>k \<le> 6\<close> first]
  have i1: "intf \<noteq> ucast (ac_intf agdev1)" "intf \<noteq> ucast (as_out_intf agdev1)"
    "intf = ucast (as_in_intf agdev1)"
    using assms(1-3) s1(4-6) by simp_all
  note s2 = set_alt_in [OF i1 z off]
  have i2: "intf \<noteq> ucast (ac_intf agdev2)" "intf \<noteq> ucast (as_out_intf agdev2)"
    "intf = ucast (as_in_intf agdev2)"
    using i1 s2(4-6) by simp_all
  note s3 = set_alt_in [OF i2 \<open>k \<le> 6\<close> again]
  note s0 = set_alt_in [OF assms(9-11) \<open>k \<le> 6\<close> fresh]
  have fmt: "p_ssize opts3 = p_ssize opts0'" "p_chmask opts3 = p_chmask opts0'"
    using \<open>k \<noteq> 0\<close> by (simp_all add: s3(1) s0(1) set_alt_format_in_def Let_def)
  have rate: "p_srate opts3 = p_srate opts0'"
    using assms(12) by (simp add: s3(1) s2(1) s1(1) s0(1) set_alt_format_in_srate)
  have mx: "max_psize (p_prm (uac2 agdev2)) = max_psize (p_prm (uac2 agdev0))"
    using assms(13) by (simp add: s2(3) s1(3))
  have "pacing_state (uac2 agdev3) = pacing_state (set_alt_pacing speed opts3 (uac2 agdev2))"
    by (rule s3(2))
  also have "\<dots> = pacing_state (set_alt_pacing speed opts0' (uac2 agdev0))"
    by (simp add: pacing_state_def set_alt_pacing_fields set_alt_pacing_interval fmt rate mx)
  also have "\<dots> = pacing_state (uac2 agdev0')"
    by (rule s0(2) [symmetric])
  finally show ?thesis .
qed

theorem set_alt_reactivation_witness:
  "afunc_set_alt USB_SPEED_HIGH 8 opts_44100 agdev_bound 2 4
        = (fst act4, fst (snd act4), snd (snd act4))
   \<and> afunc_set_alt USB_SPEED_HIGH 0 (fst (snd act4)) (snd (snd act4)) 2 0
        = (fst off4, fst (snd off4), snd (snd off4))
   \<and> afunc_set_alt USB_SPEED_HIGH 8 (fst (snd off4)) (snd (snd off4)) 2 4
        = (fst again4, fst (snd again4), snd (snd again4))
   \<and> afunc_set_alt USB_SPEED_HIGH 3 opts_44100 agdev_bound 2 4
        = (fst short4, fst (snd short4), snd (snd short4))
   \<and> fst act4 = 0 \<and> fst off4 = 0 \<and> fst again4 = 0 \<and> fst short4 = - ENOMEM
   \<and> as_in_alt (snd (snd off4)) = 0 \<and> \<not> ep_enabled (p_prm (uac2 (snd (snd off4))))
   \<and> pacing_state (uac2 (snd (snd again4))) = pacing_state (uac2 (snd (snd short4)))
   \<and> pacing_state (uac2 (snd (snd again4))) = (6, 1000, 264, 600, 0)"
proof -
  have rets: "fst act4 = 0" "fst off4 = 0" "fst again4 = 0" "fst short4 = - ENOMEM"
    "as_in_alt (snd (snd off4)) = 0" "\<not> ep_enabled (p_prm (uac2 (snd (snd off4))))"
    by code_simp+
  have v: "pacing_state (uac2 (snd (snd again4))) = (6, 1000, 264, 600, 0)"
    by code_simp
  have "pacing_state (uac2 (snd (snd again4))) = pacing_state (uac2 (snd (snd short4)))"
    by (rule set_alt_reactivation [OF bound_intf four_alt act4_eq off4_eq again4_eq
          bound_intf refl refl short4_eq])
  then show ?thesis using act4_eq off4_eq again4_eq short4_eq rets v by (intro conjI)
qed

subsection \<open>Pacing after an activation\<close>

lemma u32_not_4_le_1 [simp]: "\<not> (4::u32) \<le> 1"
  unfolding word_le_nat_alt by simp

lemma tick_44100_j:
  assumes "p_framesize u = 4" and "p_interval u = 1000" and "p_pktsize u = 176"
    and "p_pktsize_residue u = 400" and "p_residue u = 400 * of_nat j" and "j < 10"
  shows "iso_complete_pacing u r
           = Inr (u\<lparr>p_residue := 400 * of_nat (if j = 9 then 0 else Suc j)\<rparr>,
                  r\<lparr>length_req := (if j = 9 then 180 else 176),
                    actual := (if j = 9 then 180 else 176)\<rparr>)"
proof -
  from \<open>j < 10\<close> have "j = 0 \<or> j = 1 \<or> j = 2 \<or> j = 3 \<or> j = 4 \<or> j = 5 \<or> j = 6 \<or> j = 7
      \<or> j = 8 \<or> j = 9"
    by arith
  then show ?thesis using assms(1-5)
    by (elim disjE; hypsubst) (simp_all add: iso_complete_pacing_def Let_def)
qed

lemma tick_44100:
  assumes "p_framesize u = 4" and "p_interval u = 1000" and "p_pktsize u = 176"
    and "p_pktsize_residue u = 400" and "p_residue u = 400 * of_nat (n mod 10)"
  shows "iso_complete_pacing u r
           = Inr (u\<lparr>p_residue := 400 * of_nat (Suc n mod 10)\<rparr>,
                  r\<lparr>length_req := (if Suc n mod 10 = 0 then 180 else 176),
                    actual := (if Suc n mod 10 = 0 then 180 else 176)\<rparr>)"
proof -
  have j: "n mod 10 < 10" by simp
  have s: "Suc n mod 10 = (if n mod 10 = 9 then 0 else Suc (n mod 10))"
    by (simp add: mod_Suc)
  show ?thesis
    by (subst tick_44100_j [OF assms j]) (simp add: s)
qed

lemma ticks_44100:
  assumes "p_framesize u = 4" and "p_interval u = 1000" and "p_pktsize u = 176"
    and "p_pktsize_residue u = 400" and "p_residue u = 400 * of_nat (n mod 10)"
  shows "\<exists>u' ls. pacing_ticks u rs = Inr (u', ls) \<and> length ls = length rs
           \<and> (\<forall>k < length rs. ls ! k = (if Suc (n + k) mod 10 = 0 then 180 else 176))"
  using assms
proof (induction rs arbitrary: u n)
  case Nil
  then show ?case by simp
next
  case (Cons r rs)
  let ?u1 = "u\<lparr>p_residue := 400 * of_nat (Suc n mod 10)\<rparr>"
  let ?l = "if Suc n mod 10 = 0 then 180 else 176 :: u32"
  have step: "iso_complete_pacing u r = Inr (?u1, r\<lparr>length_req := ?l, actual := ?l\<rparr>)"
    by (rule tick_44100 [OF Cons.prems])
  have "\<exists>u' ls. pacing_ticks ?u1 rs = Inr (u', ls) \<and> length ls = length rs
           \<and> (\<forall>k < length rs. ls ! k = (if Suc (Suc n + k) mod 10 = 0 then 180 else 176))"
    by (rule Cons.IH) (simp_all add: Cons.prems)
  then obtain u' ls where run: "pacing_ticks ?u1 rs = Inr (u', ls)"
    and n: "length ls = length rs"
    and nth: "\<forall>k < length rs. ls ! k = (if Suc (Suc n + k) mod 10 = 0 then 180 else 176)"
    by blast
  have "(?l # ls) ! k = (if Suc (n + k) mod 10 = 0 then 180 else 176)"
    if "k < length (r # rs)" for k
    using that nth by (cases k) simp_all
  then show ?case using step run n by simp
qed

lemma pkt_44100_window: "(\<Sum>k = n..<n + 10. pkt_44100 k) = 1764"
proof (induction n)
  case 0
  show ?case by code_simp
next
  case (Suc n)
  have a: "(\<Sum>k = n..<Suc (n + 10). pkt_44100 k)
             = pkt_44100 n + (\<Sum>k = Suc n..<Suc (n + 10). pkt_44100 k)"
    by (rule sum.atLeast_Suc_lessThan) simp
  have b: "(\<Sum>k = n..<Suc (n + 10). pkt_44100 k)
             = (\<Sum>k = n..<n + 10. pkt_44100 k) + pkt_44100 (n + 10)"
    by (rule sum.atLeastLessThan_Suc) simp
  have "Suc (n + 10) mod 10 = Suc n mod 10"
    by presburger
  then have c: "pkt_44100 (n + 10) = pkt_44100 n"
    by (simp only: pkt_44100_def)
  have "(\<Sum>k = Suc n..<Suc (n + 10). pkt_44100 k) = 1764"
    using a b c Suc by linarith
  then show ?case by simp
qed

lemma act2_eq: "afunc_set_alt USB_SPEED_FULL 8 opts_44100 agdev_bound 2 2
                  = (fst act2, fst (snd act2), snd (snd act2))"
  by (simp add: act2_def)

lemma two_alt: "(2::u32) \<noteq> 0" "(2::u32) \<le> 6"
  by simp_all

lemma chip_alt2_ticks3:
  "pacing_ticks chip_alt2 [req_done, req_done, req_done]
     = Inr (chip_alt2\<lparr>p_residue := 1200\<rparr>, [176, 176, 176])"
  by code_simp

lemma chip_alt2_ticks5:
  "pacing_ticks chip_alt2 [req_done, req_done, req_done, req_done, req_done]
     = Inr (chip_alt2\<lparr>p_residue := 2000\<rparr>, [176, 176, 176, 176, 176])"
  by code_simp

lemma chip_alt2_ticks20:
  "pacing_ticks chip_alt2 (replicate 20 req_done)
     = Inr (chip_alt2,
            [176, 176, 176, 176, 176, 176, 176, 176, 176, 180,
             176, 176, 176, 176, 176, 176, 176, 176, 176, 180])"
  by code_simp

lemma act4_ticks4:
  "pacing_ticks (uac2 (snd (snd act4))) [req_done, req_done, req_done, req_done]
     = Inr ((uac2 (snd (snd act4)))\<lparr>p_residue := 2400\<rparr>, [264, 264, 264, 264])"
  by code_simp

text \<open>
  C2, as the code has it. After an activation of a non-zero alt of the IN interface,
  every run of pacing ticks returns and leaves the accumulator strictly below frame size
  times interval. (It is not kept below the interval: see the counterexample.)
\<close>

theorem residue_bound_after_activation:
  assumes "intf \<noteq> ucast (ac_intf agdev)" and "intf \<noteq> ucast (as_out_intf agdev)"
    and "intf = ucast (as_in_intf agdev)" and "alt \<noteq> 0" and "alt \<le> 6"
    and "afunc_set_alt speed budget opts agdev intf alt = (ret, opts', agdev')"
  shows "\<exists>u' ls. pacing_ticks (uac2 agdev') rs = Inr (u', ls)
           \<and> p_framesize u' = p_framesize (uac2 agdev')
           \<and> p_interval u' = p_interval (uac2 agdev')
           \<and> unat (p_residue u') < unat (p_framesize u') * unat (p_interval u')"
proof -
  have "pacing_inv (uac2 agdev')"
    by (rule set_alt_in_pacing_inv(1) [OF assms])
  from pacing_ticks_inv [OF this, of rs] obtain u' ls where
    run: "pacing_ticks (uac2 agdev') rs = Inr (u', ls)"
    and same: "u' = (uac2 agdev')\<lparr>p_residue := p_residue u'\<rparr>"
    and inv: "pacing_inv u'"
    by blast
  have p: "p_framesize u' = p_framesize (uac2 agdev')" "p_interval u' = p_interval (uac2 agdev')"
    by (subst same, simp)+
  show ?thesis using run p inv by (simp add: pacing_inv_def)
qed

theorem residue_bound_after_activation_witness:
  "(2::u32) \<noteq> ucast (ac_intf agdev_bound) \<and> (2::u32) \<noteq> ucast (as_out_intf agdev_bound)
   \<and> (2::u32) = ucast (as_in_intf agdev_bound) \<and> (4::u32) \<noteq> 0 \<and> (4::u32) \<le> 6
   \<and> afunc_set_alt USB_SPEED_HIGH 8 opts_44100 agdev_bound 2 4
        = (fst act4, fst (snd act4), snd (snd act4))
   \<and> pacing_ticks (uac2 (snd (snd act4))) [req_done, req_done, req_done, req_done]
        = Inr ((uac2 (snd (snd act4)))\<lparr>p_residue := 2400\<rparr>, [264, 264, 264, 264])
   \<and> unat (2400 :: u32) < unat (p_framesize (uac2 (snd (snd act4))))
                             * unat (p_interval (uac2 (snd (snd act4))))"
proof -
  from residue_bound_after_activation [OF bound_intf four_alt act4_eq,
      of "[req_done, req_done, req_done, req_done]"]
  obtain u' ls where
    run: "pacing_ticks (uac2 (snd (snd act4))) [req_done, req_done, req_done, req_done]
            = Inr (u', ls)"
    and f: "p_framesize u' = p_framesize (uac2 (snd (snd act4)))"
    and i: "p_interval u' = p_interval (uac2 (snd (snd act4)))"
    and b: "unat (p_residue u') < unat (p_framesize u') * unat (p_interval u')"
    by blast
  from trans [OF run [symmetric] act4_ticks4]
  have "p_residue u' = 2400" by simp
  then have "unat (2400 :: u32) < unat (p_framesize (uac2 (snd (snd act4))))
                             * unat (p_interval (uac2 (snd (snd act4))))"
    using b by (simp only: f i)
  then show ?thesis using bound_intf four_alt act4_eq act4_ticks4 by (intro conjI)
qed

theorem residue_below_interval_counterexample:
  "pacing_ticks chip_alt2 [req_done, req_done, req_done]
     = Inr (chip_alt2\<lparr>p_residue := 1200\<rparr>, [176, 176, 176])
   \<and> \<not> p_residue (chip_alt2\<lparr>p_residue := 1200\<rparr>) < p_interval (chip_alt2\<lparr>p_residue := 1200\<rparr>)"
  using chip_alt2_ticks3 by (simp add: chip_alt2_eq)

text \<open>
  C3, as the code has it. At 44100 Hz with alt 2 (frames of 4 bytes) at full speed and a
  maximum packet size of 1023, the base packet size is 176 and the per-tick residue 400;
  every tenth tick emits 180 bytes and every other tick 176, and any ten consecutive
  ticks emit 1764 bytes, which is 44100 * 4 * 10 / 1000.
\<close>

theorem pacing_44100_stereo16:
  assumes "intf \<noteq> ucast (ac_intf agdev)" and "intf \<noteq> ucast (as_out_intf agdev)"
    and "intf = ucast (as_in_intf agdev)"
    and "p_srate opts = 44100" and "max_psize (p_prm (uac2 agdev)) = 1023"
    and "afunc_set_alt USB_SPEED_FULL budget opts agdev intf 2 = (ret, opts', agdev')"
  shows "p_framesize (uac2 agdev') = 4 \<and> p_interval (uac2 agdev') = 1000
       \<and> p_pktsize (uac2 agdev') = 176 \<and> p_pktsize_residue (uac2 agdev') = 400
       \<and> (\<exists>u' ls. pacing_ticks (uac2 agdev') rs = Inr (u', ls) \<and> length ls = length rs
            \<and> (\<forall>k < length rs. unat (ls ! k) = pkt_44100 k)
            \<and> (\<forall>n. n + 10 \<le> length rs \<longrightarrow>
                  (\<Sum>k = n..<n + 10. unat (ls ! k)) = 44100 * 4 * 10 div 1000))"
proof -
  let ?u = "set_alt_pacing USB_SPEED_FULL opts' (uac2 agdev)"
  have two: "(2::u32) \<le> 6" by simp
  have o: "opts' = set_alt_format_in 2 opts"
    by (rule set_alt_in(1) [OF assms(1-3) two assms(6)])
  have ps: "pacing_state (uac2 agdev') = pacing_state ?u"
    by (rule set_alt_in(2) [OF assms(1-3) two assms(6)])
  have fmt: "p_ssize opts' = 2" "p_chmask opts' = 3" "p_srate opts' = 44100"
    using assms(4)
    by (simp_all add: o set_alt_format_in_def as_in_alt_setting_def INIT_USB_ALT_SETTING_def
        UAC2_MONO_def UAC2_STEREO_def UAC2_STEREO_CH_CONFIG_def Let_def)
  have vals: "p_framesize (uac2 agdev') = 4" "p_interval (uac2 agdev') = 1000"
    "p_pktsize (uac2 agdev') = 176" "p_pktsize_residue (uac2 agdev') = 400"
    "p_residue (uac2 agdev') = 0"
    using ps
    by (simp_all add: pacing_state_def set_alt_pacing_fields set_alt_pacing_interval fmt
        num_channels_stereo assms(5))
  have start: "p_residue (uac2 agdev') = 400 * of_nat (0 mod 10)"
    by (simp add: vals)
  from ticks_44100 [OF vals(1-4) start, of rs] obtain u' ls where
    run: "pacing_ticks (uac2 agdev') rs = Inr (u', ls)"
    and n: "length ls = length rs"
    and nth: "\<forall>k < length rs. ls ! k = (if Suc (0 + k) mod 10 = 0 then 180 else 176)"
    by blast
  have pk: "unat (ls ! k) = pkt_44100 k" if "k < length rs" for k
    using nth that by (simp add: pkt_44100_def)
  have win: "(\<Sum>k = n..<n + 10. unat (ls ! k)) = 44100 * 4 * 10 div 1000"
    if "n + 10 \<le> length rs" for n
  proof -
    have "(\<Sum>k = n..<n + 10. unat (ls ! k)) = (\<Sum>k = n..<n + 10. pkt_44100 k)"
      using that by (intro sum.cong) (simp_all add: pk)
    then show ?thesis by (simp add: pkt_44100_window)
  qed
  show ?thesis using vals run n pk win by blast
qed

theorem pacing_44100_stereo16_witness:
  "(2::u32) \<noteq> ucast (ac_intf agdev_bound) \<and> (2::u32) \<noteq> ucast (as_out_intf agdev_bound)
   \<and> (2::u32) = ucast (as_in_intf agdev_bound)
   \<and> p_srate opts_44100 = 44100 \<and> max_psize (p_prm (uac2 agdev_bound)) = 1023
   \<and> afunc_set_alt USB_SPEED_FULL 8 opts_44100 agdev_bound 2 2
        = (fst act2, fst (snd act2), snd (snd act2))
   \<and> p_pktsize chip_alt2 = 176 \<and> p_pktsize_residue chip_alt2 = 400
   \<and> pacing_ticks chip_alt2 (replicate 20 req_done)
        = Inr (chip_alt2,
               [176, 176, 176, 176, 176, 176, 176, 176, 176, 180,
                176, 176, 176, 176, 176, 176, 176, 176, 176, 180])
   \<and> (7::nat) + 10 \<le> length (replicate 20 req_done)
   \<and> (\<Sum>k = 7..<7 + 10.
         unat ([176, 176, 176, 176, 176, 176, 176, 176, 176, 180,
                176, 176, 176, 176, 176, 176, 176, 176, 176, 180 :: u32] ! k))
       = 44100 * 4 * 10 div 1000"
proof -
  have h: "p_srate opts_44100 = 44100" "max_psize (p_prm (uac2 agdev_bound)) = 1023"
    by (simp_all add: opts_44100_def agdev_bound_def prm_bound_def)
  have len: "(7::nat) + 10 \<le> length (replicate 20 req_done)" by simp
  note t = pacing_44100_stereo16 [OF bound_intf h act2_eq, of "replicate 20 req_done"]
  have v: "p_pktsize chip_alt2 = 176" "p_pktsize_residue chip_alt2 = 400"
    using t by (simp_all add: chip_alt2_def)
  from t obtain u' ls where
    run: "pacing_ticks (uac2 (snd (snd act2))) (replicate 20 req_done) = Inr (u', ls)"
    and win: "\<forall>n. n + 10 \<le> length (replicate 20 req_done) \<longrightarrow>
                 (\<Sum>k = n..<n + 10. unat (ls ! k)) = 44100 * 4 * 10 div 1000"
    by blast
  have ls: "ls = [176, 176, 176, 176, 176, 176, 176, 176, 176, 180,
                  176, 176, 176, 176, 176, 176, 176, 176, 176, 180]"
    using trans [OF run [symmetric] chip_alt2_ticks20 [unfolded chip_alt2_def]] by simp
  have s: "(\<Sum>k = 7..<7 + 10.
         unat ([176, 176, 176, 176, 176, 176, 176, 176, 176, 180,
                176, 176, 176, 176, 176, 176, 176, 176, 176, 180 :: u32] ! k))
       = 44100 * 4 * 10 div 1000"
    using win [rule_format, OF len] by (simp only: ls)
  show ?thesis using bound_intf h act2_eq v chip_alt2_ticks20 len s by (intro conjI)
qed

theorem pacing_44100_fifth_tick_counterexample:
  "p_framesize chip_alt2 = 4 \<and> p_interval chip_alt2 = 1000
   \<and> pacing_ticks chip_alt2 [req_done, req_done, req_done, req_done, req_done]
     = Inr (chip_alt2\<lparr>p_residue := 2000\<rparr>, [176, 176, 176, 176, 176])
   \<and> [176, 176, 176, 176, 176 :: u32] ! 4 \<noteq> 180
   \<and> sum_list (map unat [176, 176, 176, 176, 176 :: u32]) \<noteq> 44100 * 4 * 5 div 1000"
  using chip_alt2_ticks5 by (simp add: chip_alt2_eq)

subsection \<open>The ring position\<close>




lemma p_interval_set_prm [simp]: "p_interval (set_prm d p u) = p_interval u"
  by (cases d) simp_all

lemma get_prm_residue [simp]: "get_prm d (u\<lparr>p_residue := x\<rparr>) = get_prm d u"
  by (cases d) simp_all

lemma copy_no_store [simp]:
  "hw_ptr_stores_locked d h (iso_complete_copy st p q a @ es) = hw_ptr_stores_locked d h es"
  by (simp add: iso_complete_copy_def)


lemma set_prm_pacing_fields [simp]:
  "p_residue (set_prm d p u) = p_residue u" "p_pktsize (set_prm d p u) = p_pktsize u"
  "p_pktsize_residue (set_prm d p u) = p_pktsize_residue u"
  "p_framesize (set_prm d p u) = p_framesize u"
  by (cases d; simp)+




text \<open>Handing a request back changes the status and the length of that request only.\<close>

lemma giveback_prm:
  "get_prm d (giveback_request d i st act u)
     = (case ureq_at (get_prm d u) i of
          None \<Rightarrow> get_prm d u
        | Some r \<Rightarrow> (get_prm d u)
            \<lparr>ureq := (ureq (get_prm d u))[i := Some (r\<lparr>status := st, actual := act\<rparr>)]\<rparr>)"
  by (simp add: giveback_request_def Let_def split: option.split)

lemma giveback_fields [simp]:
  "ep_enabled (get_prm d (giveback_request d i st act u)) = ep_enabled (get_prm d u)"
  "dma_bytes (get_prm d (giveback_request d i st act u)) = dma_bytes (get_prm d u)"
  "ss (get_prm d (giveback_request d i st act u)) = ss (get_prm d u)"
  "hw_ptr (get_prm d (giveback_request d i st act u)) = hw_ptr (get_prm d u)"
  "period_size (get_prm d (giveback_request d i st act u)) = period_size (get_prm d u)"
  by (simp_all add: giveback_prm split: option.split)

lemma giveback_pacing [simp]:
  "p_interval (giveback_request d i st act u) = p_interval u"
  "p_residue (giveback_request d i st act u) = p_residue u"
  "p_pktsize (giveback_request d i st act u) = p_pktsize u"
  "p_pktsize_residue (giveback_request d i st act u) = p_pktsize_residue u"
  "p_framesize (giveback_request d i st act u) = p_framesize u"
  by (simp_all add: giveback_request_def Let_def split: option.split)


lemma giveback_none:
  "ureq_at (get_prm d u) i = None \<Longrightarrow> giveback_request d i st act u = u"
  by (simp add: giveback_request_def)

lemma giveback_ready [simp]:
  "ring_ready d (giveback_request d i st act u) = ring_ready d u"
  by (simp add: ring_ready_def)

lemma iso_advance_giveback [simp]:
  "iso_advance s (giveback_request d i st act u) a = iso_advance s u a"
  by (simp add: iso_advance_def)






lemma chip_after_9_step:
  "agdev_iso_complete SNDRV_PCM_STREAM_PLAYBACK 1
     (giveback_request SNDRV_PCM_STREAM_PLAYBACK 1 0 176 (chip_after 9))
     = Inr (chip_after 10,
            [SpinLockIrqsave SNDRV_PCM_STREAM_PLAYBACK,
             StoreHwPtr SNDRV_PCM_STREAM_PLAYBACK 1764,
             SpinUnlockIrqrestore SNDRV_PCM_STREAM_PLAYBACK,
             Memcpy (ReqBuf 0) (DmaArea 1584) 180,
             UsbEpQueue])"
  by code_simp

lemma chip_after_9_fields:
  "ureq_at (get_prm SNDRV_PCM_STREAM_PLAYBACK (chip_after 9)) 1
     = Some \<lparr>status = 0, actual = 176, length_req = 176\<rparr>"
  "iso_advance (Some SNDRV_PCM_STREAM_PLAYBACK) (chip_after 9) 176 = 180"
  "ep_enabled (get_prm SNDRV_PCM_STREAM_PLAYBACK (chip_after 9))"
  "ss (get_prm SNDRV_PCM_STREAM_PLAYBACK (chip_after 9)) = Some SNDRV_PCM_STREAM_PLAYBACK"
  "hw_ptr (get_prm SNDRV_PCM_STREAM_PLAYBACK (chip_after 9)) = 1584"
  "dma_bytes (get_prm SNDRV_PCM_STREAM_PLAYBACK (chip_after 9)) = 4096"
  "hw_ptr (get_prm SNDRV_PCM_STREAM_PLAYBACK (chip_after 10)) = 1764"
  by code_simp+

lemma chip_playing_failed_step:
  "agdev_iso_complete SNDRV_PCM_STREAM_PLAYBACK 0
     (giveback_request SNDRV_PCM_STREAM_PLAYBACK 0 (- 5) 0 chip_playing)
     = Inr (chip_playing
              \<lparr>p_prm := (p_prm chip_playing)
                 \<lparr>hw_ptr := 176,
                    ureq := (ureq (p_prm chip_playing))
                              [0 := Some \<lparr>status = - 5, actual = 176, length_req = 176\<rparr>]\<rparr>,
               p_residue := 400\<rparr>,
            [PrDebug, SpinLockIrqsave SNDRV_PCM_STREAM_PLAYBACK,
             StoreHwPtr SNDRV_PCM_STREAM_PLAYBACK 176,
             SpinUnlockIrqrestore SNDRV_PCM_STREAM_PLAYBACK,
             Memcpy (ReqBuf 0) (DmaArea 0) 176,
             UsbEpQueue])"
  by code_simp






text \<open>
  The position does not advance by the length of the completed transfer in playback:
  a transfer that failed with status -5 and moved no bytes advances it from 0 to 176,
  and the tenth good transfer of 176 bytes advances it from 1584 to 1764.
\<close>

theorem iso_complete_playback_actual_counterexample:
  "ss (get_prm SNDRV_PCM_STREAM_PLAYBACK chip_playing) = Some SNDRV_PCM_STREAM_PLAYBACK
   \<and> ep_enabled (get_prm SNDRV_PCM_STREAM_PLAYBACK chip_playing)
   \<and> hw_ptr (get_prm SNDRV_PCM_STREAM_PLAYBACK chip_playing) = 0
   \<and> dma_bytes (get_prm SNDRV_PCM_STREAM_PLAYBACK chip_playing) = 4096
   \<and> agdev_iso_complete SNDRV_PCM_STREAM_PLAYBACK 0
        (giveback_request SNDRV_PCM_STREAM_PLAYBACK 0 (- 5) 0 chip_playing)
       = Inr (chip_playing
                \<lparr>p_prm := (p_prm chip_playing)
                   \<lparr>hw_ptr := 176,
                      ureq := (ureq (p_prm chip_playing))
                                [0 := Some \<lparr>status = - 5, actual = 176, length_req = 176\<rparr>]\<rparr>,
                 p_residue := 400\<rparr>,
              [PrDebug, SpinLockIrqsave SNDRV_PCM_STREAM_PLAYBACK,
               StoreHwPtr SNDRV_PCM_STREAM_PLAYBACK 176,
               SpinUnlockIrqrestore SNDRV_PCM_STREAM_PLAYBACK,
               Memcpy (ReqBuf 0) (DmaArea 0) 176,
               UsbEpQueue])
   \<and> unat (176 :: ssize_t) \<noteq> (unat (0 :: ssize_t) + unat (0 :: u32)) mod unat (4096 :: size_t)
   \<and> hw_ptr (get_prm SNDRV_PCM_STREAM_PLAYBACK (chip_after 9)) = 1584
   \<and> dma_bytes (get_prm SNDRV_PCM_STREAM_PLAYBACK (chip_after 9)) = 4096
   \<and> agdev_iso_complete SNDRV_PCM_STREAM_PLAYBACK 1
        (giveback_request SNDRV_PCM_STREAM_PLAYBACK 1 0 176 (chip_after 9))
       = Inr (chip_after 10,
              [SpinLockIrqsave SNDRV_PCM_STREAM_PLAYBACK,
               StoreHwPtr SNDRV_PCM_STREAM_PLAYBACK 1764,
               SpinUnlockIrqrestore SNDRV_PCM_STREAM_PLAYBACK,
               Memcpy (ReqBuf 0) (DmaArea 1584) 180,
               UsbEpQueue])
   \<and> hw_ptr (get_prm SNDRV_PCM_STREAM_PLAYBACK (chip_after 10)) = 1764
   \<and> unat (1764 :: ssize_t)
       \<noteq> (unat (1584 :: ssize_t) + unat (176 :: u32)) mod unat (4096 :: size_t)"
proof -
  have f: "ss (get_prm SNDRV_PCM_STREAM_PLAYBACK chip_playing) = Some SNDRV_PCM_STREAM_PLAYBACK"
    "ep_enabled (get_prm SNDRV_PCM_STREAM_PLAYBACK chip_playing)"
    "hw_ptr (get_prm SNDRV_PCM_STREAM_PLAYBACK chip_playing) = 0"
    "dma_bytes (get_prm SNDRV_PCM_STREAM_PLAYBACK chip_playing) = 4096"
    by code_simp+
  have n: "unat (176 :: ssize_t) \<noteq> (unat (0 :: ssize_t) + unat (0 :: u32)) mod unat (4096 :: size_t)"
    "unat (1764 :: ssize_t)
       \<noteq> (unat (1584 :: ssize_t) + unat (176 :: u32)) mod unat (4096 :: size_t)"
    by simp_all
  show ?thesis
    using f chip_playing_failed_step n chip_after_9_fields(5,6,7) chip_after_9_step
    by (intro conjI)
qed

subsection \<open>Control requests\<close>

lemma get_range_in_decode:
  "control_selector get_range_in = UAC2_CS_CONTROL_SAM_FREQ"
  "entity_id get_range_in = USB_IN_CLK_ID"
  "bRequest get_range_in = UAC2_CS_RANGE" "unat (wLength get_range_in) = 14"
  by (simp_all add: get_range_in_def control_selector_def entity_id_def
      UAC2_CS_CONTROL_SAM_FREQ_def USB_IN_CLK_ID_def)

lemma length_le16 [simp]: "length (le16 w) = 2"
  by (simp add: le16_def)

lemma length_le32 [simp]: "length (le32 w) = 4"
  by (simp add: le32_def)

lemma bytes_of_range_eq:
  "bytes_of_range r =
     le16 (wNumSubRanges r)
     @ le32 (dRangeAttrs r 0 0) @ le32 (dRangeAttrs r 0 1) @ le32 (dRangeAttrs r 0 2)
     @ le32 (dRangeAttrs r 1 0) @ le32 (dRangeAttrs r 1 1) @ le32 (dRangeAttrs r 1 2)
     @ le32 (dMIN r) @ le32 (dMAX r) @ le32 (dRES r)"
  by (simp add: bytes_of_range_def CLK_FREQ_ARR_SIZE_def upt_rec [of 0] upt_rec [of 1]
      upt_rec [of 2] numeral_2_eq_2 numeral_3_eq_3)

lemma get_range_in_type:
  "bRequestType get_range_in AND USB_TYPE_MASK = USB_TYPE_CLASS"
  "bRequestType get_range_in AND USB_RECIP_MASK = USB_RECIP_INTERFACE"
  "bRequestType get_range_in AND USB_DIR_IN \<noteq> 0"
  "(ucast (wIndex get_range_in AND 0xff) :: u8) = ac_intf agdev_bound"
  by (simp_all add: get_range_in_def USB_TYPE_MASK_def USB_TYPE_CLASS_def USB_RECIP_MASK_def
      USB_RECIP_INTERFACE_def USB_DIR_IN_def agdev_bound_def)

lemma get_range_in_full_decode:
  "control_selector (get_range_in\<lparr>wLength := 38\<rparr>) = UAC2_CS_CONTROL_SAM_FREQ"
  "entity_id (get_range_in\<lparr>wLength := 38\<rparr>) = USB_IN_CLK_ID"
  using get_range_in_decode(1,2) by (simp_all add: control_selector_def entity_id_def)

text \<open>
  C5. A GET RANGE of the sampling frequency on a clock entity is to answer the count 1
  followed at once by the triple (rate, rate, 0). The handler does not: for the request
  of 14 bytes it answers the count 1 followed by the first twelve bytes of
  \<open>dRangeAttrs\<close>, which it never writes, so whatever the stack held; the rate is not
  in the answer. In the full structure the triple follows 24 such bytes, at offset 26.
\<close>

theorem get_range_payload_uninitialised:
  "in_rq_range r0 opts get_range_in req_ep0
     = (14, req_ep0\<lparr>buf := [1, 0] @ le32 (dRangeAttrs r0 0 0) @ le32 (dRangeAttrs r0 0 1)
                              @ le32 (dRangeAttrs r0 0 2) @ replicate 50 0\<rparr>)
   \<and> afunc_setup 0 agdev_bound c0 r0 opts get_range_in req_ep0
     = (0, req_ep0\<lparr>buf := [1, 0] @ le32 (dRangeAttrs r0 0 0) @ le32 (dRangeAttrs r0 0 1)
                             @ le32 (dRangeAttrs r0 0 2) @ replicate 50 0,
                    length_ep0 := 14, zero_req := False\<rparr>)
   \<and> in_rq_range r0 opts (get_range_in\<lparr>wLength := 38\<rparr>) req_ep0
     = (38, req_ep0\<lparr>buf := [1, 0]
                       @ le32 (dRangeAttrs r0 0 0) @ le32 (dRangeAttrs r0 0 1)
                       @ le32 (dRangeAttrs r0 0 2) @ le32 (dRangeAttrs r0 1 0)
                       @ le32 (dRangeAttrs r0 1 1) @ le32 (dRangeAttrs r0 1 2)
                       @ le32 (p_srate opts) @ le32 (p_srate opts) @ le32 0
                       @ replicate 26 0\<rparr>)"
proof -
  have a: "in_rq_range r0 opts get_range_in req_ep0
     = (14, req_ep0\<lparr>buf := [1, 0] @ le32 (dRangeAttrs r0 0 0) @ le32 (dRangeAttrs r0 0 1)
                              @ le32 (dRangeAttrs r0 0 2) @ replicate 50 0\<rparr>)"
    by (simp add: in_rq_range_def get_range_in_decode USB_IN_CLK_ID_def USB_OUT_CLK_ID_def
        sizeof_range_def CLK_FREQ_ARR_SIZE_def Let_def memcpy_def bytes_of_range_eq
        req_ep0_def le16_def)
  have b: "afunc_setup 0 agdev_bound c0 r0 opts get_range_in req_ep0
     = (0, req_ep0\<lparr>buf := [1, 0] @ le32 (dRangeAttrs r0 0 0) @ le32 (dRangeAttrs r0 0 1)
                             @ le32 (dRangeAttrs r0 0 2) @ replicate 50 0,
                    length_ep0 := 14, zero_req := False\<rparr>)"
    by (simp add: afunc_setup_def setup_rq_inf_def ac_rq_in_def get_range_in_type
        get_range_in_decode UAC2_CS_CUR_def UAC2_CS_RANGE_def a)
  have c: "in_rq_range r0 opts (get_range_in\<lparr>wLength := 38\<rparr>) req_ep0
     = (38, req_ep0\<lparr>buf := [1, 0]
                       @ le32 (dRangeAttrs r0 0 0) @ le32 (dRangeAttrs r0 0 1)
                       @ le32 (dRangeAttrs r0 0 2) @ le32 (dRangeAttrs r0 1 0)
                       @ le32 (dRangeAttrs r0 1 1) @ le32 (dRangeAttrs r0 1 2)
                       @ le32 (p_srate opts) @ le32 (p_srate opts) @ le32 0
                       @ replicate 26 0\<rparr>)"
    by (simp add: in_rq_range_def get_range_in_full_decode USB_IN_CLK_ID_def
        USB_OUT_CLK_ID_def sizeof_range_def CLK_FREQ_ARR_SIZE_def Let_def memcpy_def
        bytes_of_range_eq req_ep0_def le16_def)
  show ?thesis using a b c by (intro conjI)
qed

lemma srate_lookup_table:
  "srate_lookup clk_frequencies v 0
     = (if v = 44100 then 0 else if v = 48000 then 1 else 2)"
  by (simp add: clk_frequencies_def)

lemma set_p_srate_complete_eq:
  assumes "u32_of_le (take 4 (buf req)) = v"
  shows "set_p_srate_complete opts req
           = (if v = 44100 \<or> v = 48000
              then (opts\<lparr>p_srate := v\<rparr>, [PrDebug, StoreSrate SNDRV_PCM_STREAM_PLAYBACK v])
              else (opts, [PrDebug, PrErr]))"
  using assms
  by (simp add: set_p_srate_complete_def srate_lookup_table CLK_FREQ_ARR_SIZE_def Let_def)

lemma set_c_srate_complete_eq:
  assumes "u32_of_le (take 4 (buf req)) = v"
  shows "set_c_srate_complete opts req
           = (if v = 44100 \<or> v = 48000
              then (opts\<lparr>c_srate := v\<rparr>, [PrDebug, StoreSrate SNDRV_PCM_STREAM_CAPTURE v])
              else (opts, [PrDebug, PrErr]))"
  using assms
  by (simp add: set_c_srate_complete_def srate_lookup_table CLK_FREQ_ARR_SIZE_def Let_def)

lemma set_cur_in_decode:
  "control_selector set_cur_in = UAC2_CS_CONTROL_SAM_FREQ"
  "entity_id set_cur_in = USB_IN_CLK_ID" "unat (wLength set_cur_in) = 4"
  by (simp_all add: set_cur_in_def control_selector_def entity_id_def
      UAC2_CS_CONTROL_SAM_FREQ_def USB_IN_CLK_ID_def)

lemma set_cur_in_handled:
  "out_rq_cur set_cur_in req_ep0 = (4, req_ep0\<lparr>complete := set_p_srate_complete_cb\<rparr>)"
  by (simp add: out_rq_cur_def set_cur_in_decode USB_IN_CLK_ID_def USB_OUT_CLK_ID_def)

lemma req_data_decode:
  "complete req_data_48000 = complete (req_ep0\<lparr>complete := set_p_srate_complete_cb\<rparr>)"
  "u32_of_le (take 4 (buf req_data_48000)) = 48000"
  "complete req_data_96000 = complete (req_ep0\<lparr>complete := set_p_srate_complete_cb\<rparr>)"
  "u32_of_le (take 4 (buf req_data_96000)) = 96000"
  by (simp_all add: req_data_48000_def req_data_96000_def)

text \<open>
  C6, as the code has it. A SET CUR with the sample-frequency selector returns the
  length of the data stage at once. When the data stage of a request addressed to the IN
  or OUT clock has delivered the 32-bit value \<open>v\<close>, the callback stores \<open>v\<close> as the
  playback or capture rate if \<open>v\<close> is 44100 or 48000, and otherwise leaves the
  configuration unchanged and logs an error; it returns nothing to the host. The store
  is made directly by the callback: its trace has the store and no lock operation.
\<close>

theorem set_cur_sam_freq:
  assumes "control_selector cr = UAC2_CS_CONTROL_SAM_FREQ"
    and "out_rq_cur cr req = (ret, req1)"
    and "complete req2 = complete req1" and "u32_of_le (take 4 (buf req2)) = v"
  shows "ret = int (unat (wLength cr))
       \<and> (entity_id cr = USB_IN_CLK_ID \<longrightarrow>
            ep0_complete opts req2
              = (if v = 44100 \<or> v = 48000
                 then (opts\<lparr>p_srate := v\<rparr>, [PrDebug, StoreSrate SNDRV_PCM_STREAM_PLAYBACK v])
                 else (opts, [PrDebug, PrErr])))
       \<and> (entity_id cr = USB_OUT_CLK_ID \<longrightarrow>
            ep0_complete opts req2
              = (if v = 44100 \<or> v = 48000
                 then (opts\<lparr>c_srate := v\<rparr>, [PrDebug, StoreSrate SNDRV_PCM_STREAM_CAPTURE v])
                 else (opts, [PrDebug, PrErr])))"
proof -
  have ret: "ret = int (unat (wLength cr))"
    and cb: "complete req1
              = (if entity_id cr = USB_OUT_CLK_ID then set_c_srate_complete_cb
                 else if entity_id cr = USB_IN_CLK_ID then set_p_srate_complete_cb
                 else complete req)"
    using assms(1,2) by (auto simp add: out_rq_cur_def)
  have ne: "USB_IN_CLK_ID \<noteq> USB_OUT_CLK_ID"
    by (simp add: USB_IN_CLK_ID_def USB_OUT_CLK_ID_def)
  have p: "ep0_complete opts req2 = set_p_srate_complete opts req2"
    if "entity_id cr = USB_IN_CLK_ID"
    using that ne by (simp add: ep0_complete_def assms(3) cb)
  have c: "ep0_complete opts req2 = set_c_srate_complete opts req2"
    if "entity_id cr = USB_OUT_CLK_ID"
    using that by (simp add: ep0_complete_def assms(3) cb)
  show ?thesis
    using ret p c set_p_srate_complete_eq [OF assms(4), of opts]
      set_c_srate_complete_eq [OF assms(4), of opts]
    by simp
qed

theorem set_cur_sam_freq_witness:
  "control_selector set_cur_in = UAC2_CS_CONTROL_SAM_FREQ
   \<and> entity_id set_cur_in = USB_IN_CLK_ID
   \<and> out_rq_cur set_cur_in req_ep0 = (4, req_ep0\<lparr>complete := set_p_srate_complete_cb\<rparr>)
   \<and> complete req_data_48000 = complete (req_ep0\<lparr>complete := set_p_srate_complete_cb\<rparr>)
   \<and> u32_of_le (take 4 (buf req_data_48000)) = 48000
   \<and> complete req_data_96000 = complete (req_ep0\<lparr>complete := set_p_srate_complete_cb\<rparr>)
   \<and> u32_of_le (take 4 (buf req_data_96000)) = 96000
   \<and> (4::int) = int (unat (wLength set_cur_in))
   \<and> ep0_complete opts_44100 req_data_48000
        = (opts_44100\<lparr>p_srate := 48000\<rparr>, [PrDebug, StoreSrate SNDRV_PCM_STREAM_PLAYBACK 48000])
   \<and> ep0_complete opts_44100 req_data_96000 = (opts_44100, [PrDebug, PrErr])"
proof -
  note a = set_cur_sam_freq [OF set_cur_in_decode(1) set_cur_in_handled req_data_decode(1,2),
      of opts_44100]
  note b = set_cur_sam_freq [OF set_cur_in_decode(1) set_cur_in_handled req_data_decode(3,4),
      of opts_44100]
  have r: "(4::int) = int (unat (wLength set_cur_in))" using a by blast
  have g: "ep0_complete opts_44100 req_data_48000
        = (opts_44100\<lparr>p_srate := 48000\<rparr>, [PrDebug, StoreSrate SNDRV_PCM_STREAM_PLAYBACK 48000])"
    using a set_cur_in_decode(2) by simp
  have e: "ep0_complete opts_44100 req_data_96000 = (opts_44100, [PrDebug, PrErr])"
    using b set_cur_in_decode(2) by simp
  show ?thesis
    using set_cur_in_decode(1,2) set_cur_in_handled req_data_decode r g e by (intro conjI)
qed

theorem set_cur_store_unlocked_counterexample:
  "out_rq_cur set_cur_in req_ep0 = (4, req_ep0\<lparr>complete := set_p_srate_complete_cb\<rparr>)
   \<and> ep0_complete opts_44100 req_data_48000
        = (opts_44100\<lparr>p_srate := 48000\<rparr>, [PrDebug, StoreSrate SNDRV_PCM_STREAM_PLAYBACK 48000])
   \<and> \<not> srate_stores_locked False [PrDebug, StoreSrate SNDRV_PCM_STREAM_PLAYBACK 48000]"
proof -
  have "ep0_complete opts_44100 req_data_48000
        = (opts_44100\<lparr>p_srate := 48000\<rparr>, [PrDebug, StoreSrate SNDRV_PCM_STREAM_PLAYBACK 48000])"
    using set_p_srate_complete_eq [OF req_data_decode(2), of opts_44100]
    by (simp add: ep0_complete_def req_data_48000_def)
  then show ?thesis using set_cur_in_handled by simp
qed

lemma get_cur_entity7_decode:
  "control_selector get_cur_entity7 = UAC2_CS_CONTROL_SAM_FREQ"
  "entity_id get_cur_entity7 = 7"
  "bRequest get_cur_entity7 = UAC2_CS_CUR" "unat (wLength get_cur_entity7) = 4"
  "bRequestType get_cur_entity7 AND USB_TYPE_MASK = USB_TYPE_CLASS"
  "bRequestType get_cur_entity7 AND USB_RECIP_MASK = USB_RECIP_INTERFACE"
  "bRequestType get_cur_entity7 AND USB_DIR_IN \<noteq> 0"
  "(ucast (wIndex get_cur_entity7 AND 0xff) :: u8) = ac_intf agdev_bound"
  by (simp_all add: get_cur_entity7_def control_selector_def entity_id_def
      UAC2_CS_CONTROL_SAM_FREQ_def USB_TYPE_MASK_def USB_TYPE_CLASS_def USB_RECIP_MASK_def
      USB_RECIP_INTERFACE_def USB_DIR_IN_def agdev_bound_def)

text \<open>
  C7. A GET CUR of the sampling frequency addressed to an entity that is neither clock
  is to be refused as not supported. The handler does not refuse it: for entity 7 it
  returns the length 4 and copies the four bytes of its local structure, which it has
  not written, into the answer, and \<open>afunc_setup\<close> queues that answer.
\<close>

theorem get_cur_unknown_entity_answered:
  "entity_id get_cur_entity7 \<noteq> USB_IN_CLK_ID \<and> entity_id get_cur_entity7 \<noteq> USB_OUT_CLK_ID
   \<and> in_rq_cur c0 opts get_cur_entity7 req_ep0
     = (4, req_ep0\<lparr>buf := le32 (dCUR c0) @ replicate 60 0\<rparr>)
   \<and> in_rq_cur c0 opts get_cur_entity7 req_ep0 \<noteq> (- EOPNOTSUPP, req_ep0)
   \<and> afunc_setup 0 agdev_bound c0 r0 opts get_cur_entity7 req_ep0
     = (0, req_ep0\<lparr>buf := le32 (dCUR c0) @ replicate 60 0, length_ep0 := 4,
                    zero_req := False\<rparr>)"
proof -
  have e: "entity_id get_cur_entity7 \<noteq> USB_IN_CLK_ID"
    "entity_id get_cur_entity7 \<noteq> USB_OUT_CLK_ID"
    by (simp_all add: get_cur_entity7_decode USB_IN_CLK_ID_def USB_OUT_CLK_ID_def)
  have a: "in_rq_cur c0 opts get_cur_entity7 req_ep0
     = (4, req_ep0\<lparr>buf := le32 (dCUR c0) @ replicate 60 0\<rparr>)"
    by (simp add: in_rq_cur_def get_cur_entity7_decode(1,4) e sizeof_cur_def Let_def
        memcpy_def bytes_of_cur_def req_ep0_def)
  have n: "in_rq_cur c0 opts get_cur_entity7 req_ep0 \<noteq> (- EOPNOTSUPP, req_ep0)"
    by (simp add: a EOPNOTSUPP_def)
  have b: "afunc_setup 0 agdev_bound c0 r0 opts get_cur_entity7 req_ep0
     = (0, req_ep0\<lparr>buf := le32 (dCUR c0) @ replicate 60 0, length_ep0 := 4,
                    zero_req := False\<rparr>)"
    by (simp add: afunc_setup_def setup_rq_inf_def ac_rq_in_def get_cur_entity7_decode a)
  show ?thesis using e a n b by (intro conjI)
qed

end
